theory Spec2Isabelle
  imports Complex_Main "HOL-Library.Word" "HOL-Library.Sublist"
begin

section \<open>The configuration registry of CoolProp (include/Configuration.h)\<close>

text \<open>
  A shallow embedding of \<^verbatim>\<open>ConfigurationItem\<close> and \<^verbatim>\<open>Configuration\<close>.
  Member functions that mutate their object take the object and return the pair of their
  outcome and the object as it stands when they return or throw; \<^verbatim>\<open>const\<close> member
  functions return their outcome only.
\<close>

subsection \<open>Keys, type tags and the X-macro table\<close>

datatype configuration_keys =
    NORMALIZE_GAS_CONSTANTS
  | CRITICAL_WITHIN_1UK
  | CRITICAL_SPLINES_ENABLED
  | SAVE_RAW_TABLES
  | ALTERNATIVE_TABLES_DIRECTORY
  | ALTERNATIVE_REFPROP_PATH
  | ALTERNATIVE_REFPROP_HMX_BNC_PATH
  | REFPROP_DONT_ESTIMATE_INTERACTION_PARAMETERS
  | MAXIMUM_TABLE_DIRECTORY_SIZE_IN_GB
  | DONT_CHECK_PROPERTY_LIMITS
  | HENRYS_LAW_TO_GENERATE_VLE_GUESSES
  | PHASE_ENVELOPE_STARTING_PRESSURE_PA

datatype ConfigurationDataTypes =
    CONFIGURATION_NOT_DEFINED_TYPE
  | CONFIGURATION_BOOL_TYPE
  | CONFIGURATION_DOUBLE_TYPE
  | CONFIGURATION_INTEGER_TYPE
  | CONFIGURATION_STRING_TYPE
  | CONFIGURATION_ENDOFLIST_TYPE

text \<open>
  A C++ \<^verbatim>\<open>int\<close> is a 32-bit word read as signed. A \<^verbatim>\<open>double\<close> is modelled by the
  real number it denotes: the class stores and copies doubles and never computes with them,
  and the one conversion it performs, from \<^verbatim>\<open>int\<close>, is exact.
\<close>

type_synonym c_int = "32 word"
type_synonym double = real

definition static_cast_double :: "c_int \<Rightarrow> double" where
  "static_cast_double i = real_of_int (sint i)"

text \<open>
  A \<^verbatim>\<open>std::string\<close> is a list of characters that may contain NUL. Going through a
  \<^verbatim>\<open>const char *\<close> (\<^verbatim>\<open>c_str()\<close> handed to a function that measures the string, or the
  assignment of a \<^verbatim>\<open>const char *\<close> to a \<^verbatim>\<open>std::string\<close>) keeps the characters before
  the first NUL.
\<close>

definition c_str :: "string \<Rightarrow> string" where
  "c_str s = takeWhile (\<lambda>c. c \<noteq> CHR 0x00) s"

text \<open>
  The default values of the table are C++ literals; the type of the literal selects the
  constructor of \<^verbatim>\<open>ConfigurationItem\<close> in \<^verbatim>\<open>set_defaults\<close>.
\<close>

datatype literal =
    Bool_literal bool
  | Int_literal c_int
  | Double_literal double
  | String_literal string

text \<open>The table \<^verbatim>\<open>CONFIGURATION_KEYS_ENUM\<close>: enum, string, default value, description.\<close>

definition CONFIGURATION_KEYS_ENUM :: "(configuration_keys \<times> string \<times> literal \<times> string) list" where
  "CONFIGURATION_KEYS_ENUM =
   [(NORMALIZE_GAS_CONSTANTS, ''NORMALIZE_GAS_CONSTANTS'', Bool_literal True,
       ''If true, for mixtures, the molar gas constant (R) will be set to the CODATA value''),
    (CRITICAL_WITHIN_1UK, ''CRITICAL_WITHIN_1UK'', Bool_literal True,
       ''If true, any temperature within 1 uK of the critical temperature will be considered to be AT the critical point''),
    (CRITICAL_SPLINES_ENABLED, ''CRITICAL_SPLINES_ENABLED'', Bool_literal True,
       ''If true, the critical splines will be used in the near-vicinity of the critical point''),
    (SAVE_RAW_TABLES, ''SAVE_RAW_TABLES'', Bool_literal False,
       ''If true, the raw, uncompressed tables will also be written to file''),
    (ALTERNATIVE_TABLES_DIRECTORY, ''ALTERNATIVE_TABLES_DIRECTORY'', String_literal [],
       ''If provided, this path will be the root directory for the tabular data.  Otherwise, ${HOME}/.CoolProp/Tables is used''),
    (ALTERNATIVE_REFPROP_PATH, ''ALTERNATIVE_REFPROP_PATH'', String_literal [],
       ''An alternative path to be provided to the directory that contains REFPROP's fluids and mixtures directories.  If provided, the SETPATH function will be called with this directory prior to calling any REFPROP functions.''),
    (ALTERNATIVE_REFPROP_HMX_BNC_PATH, ''ALTERNATIVE_REFPROP_HMX_BNC_PATH'', String_literal [],
       ''An alternative path to the HMX.BNC file.  If provided, it will be passed into REFPROP's SETUP or SETMIX routines''),
    (REFPROP_DONT_ESTIMATE_INTERACTION_PARAMETERS, ''REFPROP_DONT_ESTIMATE_INTERACTION_PARAMETERS'', Bool_literal False,
       ''If true, if the binary interaction parameters in REFPROP are estimated, throw an error rather than silently continuing''),
    (MAXIMUM_TABLE_DIRECTORY_SIZE_IN_GB, ''MAXIMUM_TABLE_DIRECTORY_SIZE_IN_GB'', Double_literal 1,
       ''The maximum allowed size of the directory that is used to store tabular data''),
    (DONT_CHECK_PROPERTY_LIMITS, ''DONT_CHECK_PROPERTY_LIMITS'', Bool_literal False,
       ''If true, when possible, CoolProp will skip checking whether values are inside the property limits''),
    (HENRYS_LAW_TO_GENERATE_VLE_GUESSES, ''HENRYS_LAW_TO_GENERATE_VLE_GUESSES'', Bool_literal False,
       ''If true, when doing water-based mixture dewpoint calculations, use Henry's Law to generate guesses for liquid-phase composition''),
    (PHASE_ENVELOPE_STARTING_PRESSURE_PA, ''PHASE_ENVELOPE_STARTING_PRESSURE_PA'', Double_literal 100,
       ''Starting pressure [Pa] for phase envelope construction'')]"

text \<open>
  Modelled from the spec: the body of \<^verbatim>\<open>config_key_to_string\<close> is not in
  Configuration.h, which only declares it (``convert the configuration key to a string in a
  1-1 representation''). Following \<open>name_of(key)\<close> of the specification it returns the
  string column of the key's row of the table, and the empty string for a key without a row.
\<close>

definition config_key_to_string :: "configuration_keys \<Rightarrow> string" where
  "config_key_to_string keys =
     (case find (\<lambda>(Enum, String, Default, Desc). Enum = keys) CONFIGURATION_KEYS_ENUM of
        Some (Enum, String, Default, Desc) \<Rightarrow> String
      | None \<Rightarrow> [])"

subsection \<open>Exceptions and outcomes\<close>

text \<open>
  Modelled from the spec: Exceptions.h is not among the sources. The exception classes are
  the error kinds the specification names; each carries its message. Configuration.h
  itself constructs \<^verbatim>\<open>ValueError\<close> only, with a formatted message or, by the default
  constructor, with the empty message.
\<close>

datatype exception =
    ValueError string
  | TypeMismatch string
  | NotFound string
  | InternalError string
  | ParseError string

text \<open>
  A call returns a value, throws, or has no defined behaviour (it reads a member of the
  anonymous union that is not the active one, or breaks a precondition that the JSON
  library asserts).
\<close>

datatype 'a outcome = Returns 'a | Throws exception | Undefined

subsection \<open>The JSON values of the library\<close>

text \<open>
  Modelled from the spec: rapidjson is an external library, not among the sources. A
  value is a tree whose type predicates and typed getters are those the code calls. A
  number is held either as an integer or as a double. \<open>IsInt\<close> holds of an integer that
  a C++ \<^verbatim>\<open>int\<close> can represent, which is what \<open>GetInt\<close> returns; \<open>IsDouble\<close> holds of
  a number held as a double only. A getter is modelled on the values of its predicate,
  where the code calls it; elsewhere it has no result.
\<close>

datatype json =
    JNull
  | JBool bool
  | JInteger int
  | JDouble double
  | JString string
  | JArray "json list"
  | JObject "(string \<times> json) list"

definition IsBool :: "json \<Rightarrow> bool" where
  "IsBool val = (case val of JBool b \<Rightarrow> True | _ \<Rightarrow> False)"

definition IsInt :: "json \<Rightarrow> bool" where
  "IsInt val = (case val of JInteger n \<Rightarrow> - 2147483648 \<le> n \<and> n \<le> 2147483647 | _ \<Rightarrow> False)"

definition IsDouble :: "json \<Rightarrow> bool" where
  "IsDouble val = (case val of JDouble d \<Rightarrow> True | _ \<Rightarrow> False)"

definition IsString :: "json \<Rightarrow> bool" where
  "IsString val = (case val of JString s \<Rightarrow> True | _ \<Rightarrow> False)"

definition IsNumber :: "json \<Rightarrow> bool" where
  "IsNumber val = (case val of JInteger n \<Rightarrow> True | JDouble d \<Rightarrow> True | _ \<Rightarrow> False)"

definition GetBool :: "json \<Rightarrow> bool option" where
  "GetBool val = (case val of JBool b \<Rightarrow> Some b | _ \<Rightarrow> None)"

definition GetInt :: "json \<Rightarrow> c_int option" where
  "GetInt val = (case val of JInteger n \<Rightarrow> if IsInt val then Some (word_of_int n) else None | _ \<Rightarrow> None)"

definition GetDouble :: "json \<Rightarrow> double option" where
  "GetDouble val = (case val of JDouble d \<Rightarrow> Some d | _ \<Rightarrow> None)"

definition GetString :: "json \<Rightarrow> string option" where
  "GetString val = (case val of JString s \<Rightarrow> Some s | _ \<Rightarrow> None)"

text \<open>
  \<^verbatim>\<open>val.AddMember(name, v, allocator)\<close> appends a member to the object \<^verbatim>\<open>val\<close>; the
  library asserts that \<^verbatim>\<open>val\<close> is an object and \<^verbatim>\<open>name\<close> a string.
\<close>

definition AddMember :: "json \<Rightarrow> json \<Rightarrow> json \<Rightarrow> unit outcome \<times> json" where
  "AddMember name v val =
     (case val of
        JObject members \<Rightarrow>
          (case name of
             JString n \<Rightarrow> (Returns (), JObject (members @ [(n, v)]))
           | _ \<Rightarrow> (Undefined, val))
      | _ \<Rightarrow> (Undefined, val))"

subsection \<open>ConfigurationItem\<close>

text \<open>
  The anonymous union of \<^verbatim>\<open>v_double\<close>, \<^verbatim>\<open>v_bool\<close> and \<^verbatim>\<open>v_integer\<close> holds the member
  written last, or nothing determinate when no member was written.
\<close>

datatype anonymous_union =
    Indeterminate
  | Active_double double
  | Active_bool bool
  | Active_integer c_int

record ConfigurationItem =
  type :: ConfigurationDataTypes
  u :: anonymous_union
  v_string :: string
  key :: configuration_keys

definition v_double :: "ConfigurationItem \<Rightarrow> double option" where
  "v_double it = (case u it of Active_double d \<Rightarrow> Some d | _ \<Rightarrow> None)"

definition v_bool :: "ConfigurationItem \<Rightarrow> bool option" where
  "v_bool it = (case u it of Active_bool b \<Rightarrow> Some b | _ \<Rightarrow> None)"

definition v_integer :: "ConfigurationItem \<Rightarrow> c_int option" where
  "v_integer it = (case u it of Active_integer i \<Rightarrow> Some i | _ \<Rightarrow> None)"

text \<open>The five constructors; \<^verbatim>\<open>v_string\<close> is default-constructed (empty) unless assigned.\<close>

definition ConfigurationItem_bool :: "configuration_keys \<Rightarrow> bool \<Rightarrow> ConfigurationItem" where
  "ConfigurationItem_bool k val =
     \<lparr>type = CONFIGURATION_BOOL_TYPE, u = Active_bool val, v_string = [], key = k\<rparr>"

definition ConfigurationItem_int :: "configuration_keys \<Rightarrow> c_int \<Rightarrow> ConfigurationItem" where
  "ConfigurationItem_int k val =
     \<lparr>type = CONFIGURATION_INTEGER_TYPE, u = Active_integer val, v_string = [], key = k\<rparr>"

definition ConfigurationItem_double :: "configuration_keys \<Rightarrow> double \<Rightarrow> ConfigurationItem" where
  "ConfigurationItem_double k val =
     \<lparr>type = CONFIGURATION_DOUBLE_TYPE, u = Active_double val, v_string = [], key = k\<rparr>"

definition ConfigurationItem_cstr :: "configuration_keys \<Rightarrow> string \<Rightarrow> ConfigurationItem" where
  "ConfigurationItem_cstr k val =
     \<lparr>type = CONFIGURATION_STRING_TYPE, u = Indeterminate, v_string = c_str val, key = k\<rparr>"

definition ConfigurationItem_string :: "configuration_keys \<Rightarrow> string \<Rightarrow> ConfigurationItem" where
  "ConfigurationItem_string k val =
     \<lparr>type = CONFIGURATION_STRING_TYPE, u = Indeterminate, v_string = val, key = k\<rparr>"

text \<open>Overload resolution of \<^verbatim>\<open>ConfigurationItem(Enum, Default)\<close> on the literal's type.\<close>

definition ConfigurationItem_of :: "configuration_keys \<Rightarrow> literal \<Rightarrow> ConfigurationItem" where
  "ConfigurationItem_of k Default =
     (case Default of
        Bool_literal b \<Rightarrow> ConfigurationItem_bool k b
      | Int_literal i \<Rightarrow> ConfigurationItem_int k i
      | Double_literal d \<Rightarrow> ConfigurationItem_double k d
      | String_literal s \<Rightarrow> ConfigurationItem_cstr k s)"

definition check_data_type :: "ConfigurationDataTypes \<Rightarrow> ConfigurationItem \<Rightarrow> unit outcome" where
  "check_data_type t it =
     (if t \<noteq> type it then Throws (ValueError ''type does not match'') else Returns ())"

text \<open>The cast operators.\<close>

definition operator_bool :: "ConfigurationItem \<Rightarrow> bool outcome" where
  "operator_bool it =
     (case check_data_type CONFIGURATION_BOOL_TYPE it of
        Throws e \<Rightarrow> Throws e
      | Undefined \<Rightarrow> Undefined
      | Returns _ \<Rightarrow> (case v_bool it of Some b \<Rightarrow> Returns b | None \<Rightarrow> Undefined))"

definition operator_double :: "ConfigurationItem \<Rightarrow> double outcome" where
  "operator_double it =
     (case check_data_type CONFIGURATION_DOUBLE_TYPE it of
        Throws e \<Rightarrow> Throws e
      | Undefined \<Rightarrow> Undefined
      | Returns _ \<Rightarrow> (case v_double it of Some d \<Rightarrow> Returns d | None \<Rightarrow> Undefined))"

definition operator_string :: "ConfigurationItem \<Rightarrow> string outcome" where
  "operator_string it =
     (case check_data_type CONFIGURATION_STRING_TYPE it of
        Throws e \<Rightarrow> Throws e
      | Undefined \<Rightarrow> Undefined
      | Returns _ \<Rightarrow> Returns (v_string it))"

text \<open>The typed writes.\<close>

definition set_bool :: "bool \<Rightarrow> ConfigurationItem \<Rightarrow> unit outcome \<times> ConfigurationItem" where
  "set_bool val it =
     (case check_data_type CONFIGURATION_BOOL_TYPE it of
        Throws e \<Rightarrow> (Throws e, it)
      | Undefined \<Rightarrow> (Undefined, it)
      | Returns _ \<Rightarrow> (Returns (), it\<lparr>u := Active_bool val\<rparr>))"

definition set_integer :: "c_int \<Rightarrow> ConfigurationItem \<Rightarrow> unit outcome \<times> ConfigurationItem" where
  "set_integer val it =
     (case check_data_type CONFIGURATION_INTEGER_TYPE it of
        Throws e \<Rightarrow> (Throws e, it)
      | Undefined \<Rightarrow> (Undefined, it)
      | Returns _ \<Rightarrow> (Returns (), it\<lparr>u := Active_integer val\<rparr>))"

definition set_double :: "double \<Rightarrow> ConfigurationItem \<Rightarrow> unit outcome \<times> ConfigurationItem" where
  "set_double val it =
     (case check_data_type CONFIGURATION_DOUBLE_TYPE it of
        Throws e \<Rightarrow> (Throws e, it)
      | Undefined \<Rightarrow> (Undefined, it)
      | Returns _ \<Rightarrow> (Returns (), it\<lparr>u := Active_double val\<rparr>))"

definition set_string :: "string \<Rightarrow> ConfigurationItem \<Rightarrow> unit outcome \<times> ConfigurationItem" where
  "set_string val it =
     (case check_data_type CONFIGURATION_STRING_TYPE it of
        Throws e \<Rightarrow> (Throws e, it)
      | Undefined \<Rightarrow> (Undefined, it)
      | Returns _ \<Rightarrow> (Returns (), it\<lparr>v_string := val\<rparr>))"

definition get_key :: "ConfigurationItem \<Rightarrow> configuration_keys" where
  "get_key it = key it"

text \<open>
  \<^verbatim>\<open>add_to_json(val, d)\<close>: the document \<^verbatim>\<open>d\<close> only lends its allocator. The values
  built from a \<^verbatim>\<open>const char *\<close> hold the characters before the first NUL.
\<close>

definition add_to_json :: "ConfigurationItem \<Rightarrow> json \<Rightarrow> unit outcome \<times> json" where
  "add_to_json it val =
     (let name_string = config_key_to_string (key it);
          name = JString (c_str name_string)
      in case type it of
           CONFIGURATION_BOOL_TYPE \<Rightarrow>
             (case v_bool it of
                Some b \<Rightarrow> AddMember name (JBool b) val
              | None \<Rightarrow> (Undefined, val))
         | CONFIGURATION_INTEGER_TYPE \<Rightarrow>
             (case v_integer it of
                Some i \<Rightarrow> AddMember name (JInteger (sint i)) val
              | None \<Rightarrow> (Undefined, val))
         | CONFIGURATION_DOUBLE_TYPE \<Rightarrow>
             (case v_double it of
                Some d \<Rightarrow> AddMember name (JDouble d) val
              | None \<Rightarrow> (Undefined, val))
         | CONFIGURATION_STRING_TYPE \<Rightarrow>
             AddMember name (JString (c_str (v_string it))) val
         | CONFIGURATION_ENDOFLIST_TYPE \<Rightarrow> (Throws (ValueError []), val)
         | CONFIGURATION_NOT_DEFINED_TYPE \<Rightarrow> (Throws (ValueError []), val))"

text \<open>
  \<^verbatim>\<open>set_from_json(val)\<close>. \<^verbatim>\<open>cpjson::to_string\<close>, which renders the rejected value in
  the message of the double branch, is not among the sources and is a parameter.
\<close>

definition set_from_json ::
  "(json \<Rightarrow> string) \<Rightarrow> json \<Rightarrow> ConfigurationItem \<Rightarrow> unit outcome \<times> ConfigurationItem" where
  "set_from_json to_string val it =
     (case type it of
        CONFIGURATION_BOOL_TYPE \<Rightarrow>
          (if \<not> IsBool val then (Throws (ValueError ''Input is not boolean''), it)
           else (case GetBool val of
                   Some b \<Rightarrow> (Returns (), it\<lparr>u := Active_bool b\<rparr>)
                 | None \<Rightarrow> (Undefined, it)))
      | CONFIGURATION_INTEGER_TYPE \<Rightarrow>
          (if \<not> IsInt val then (Throws (ValueError ''Input is not integer''), it)
           else (case GetInt val of
                   Some i \<Rightarrow> (Returns (), it\<lparr>u := Active_integer i\<rparr>)
                 | None \<Rightarrow> (Undefined, it)))
      | CONFIGURATION_DOUBLE_TYPE \<Rightarrow>
          (if \<not> IsDouble val \<and> \<not> IsInt val
           then (Throws (ValueError (''Input ['' @ to_string val
                   @ ''] is not double (or something that can be cast to double)'')), it)
           else if IsDouble val
           then (case GetDouble val of
                   Some d \<Rightarrow> (Returns (), it\<lparr>u := Active_double d\<rparr>)
                 | None \<Rightarrow> (Undefined, it))
           else (case GetInt val of
                   Some i \<Rightarrow> (Returns (), it\<lparr>u := Active_double (static_cast_double i)\<rparr>)
                 | None \<Rightarrow> (Undefined, it)))
      | CONFIGURATION_STRING_TYPE \<Rightarrow>
          (if \<not> IsString val then (Throws (ValueError ''Input is not string''), it)
           else (case GetString val of
                   Some s \<Rightarrow> (Returns (), it\<lparr>v_string := c_str s\<rparr>)
                 | None \<Rightarrow> (Undefined, it)))
      | CONFIGURATION_ENDOFLIST_TYPE \<Rightarrow> (Throws (ValueError []), it)
      | CONFIGURATION_NOT_DEFINED_TYPE \<Rightarrow> (Throws (ValueError []), it))"

subsection \<open>Configuration\<close>

text \<open>The \<^verbatim>\<open>std::map\<close> from keys to items.\<close>

record Configuration =
  items :: "configuration_keys \<Rightarrow> ConfigurationItem option"

definition get_item :: "configuration_keys \<Rightarrow> Configuration \<Rightarrow> ConfigurationItem outcome" where
  "get_item k cfg =
     (case items cfg k of
        Some it \<Rightarrow> Returns it
      | None \<Rightarrow> Throws (ValueError ''invalid item''))"

text \<open>\<^verbatim>\<open>std::map::insert\<close> leaves the map as it is when the key is already there.\<close>

definition add_item :: "ConfigurationItem \<Rightarrow> Configuration \<Rightarrow> Configuration" where
  "add_item item cfg =
     (case items cfg (get_key item) of
        None \<Rightarrow> cfg\<lparr>items := (items cfg)(get_key item \<mapsto> item)\<rparr>
      | Some existing \<Rightarrow> cfg)"

definition get_items :: "Configuration \<Rightarrow> configuration_keys \<Rightarrow> ConfigurationItem option" where
  "get_items cfg = items cfg"

definition set_defaults :: "Configuration \<Rightarrow> Configuration" where
  "set_defaults cfg =
     fold (\<lambda>(Enum, String, Default, Desc). add_item (ConfigurationItem_of Enum Default))
       CONFIGURATION_KEYS_ENUM cfg"

text \<open>The constructor: an empty map, then \<^verbatim>\<open>set_defaults()\<close>.\<close>

definition Configuration_new :: Configuration where
  "Configuration_new = set_defaults \<lparr>items = Map.empty\<rparr>"

subsection \<open>Properly constructed items\<close>

text \<open>
  What each constructor establishes and each member function keeps: the type tag is one of
  the four value types and, for a bool, integer or double item, the active member of the
  union is the one of the tag.
\<close>

definition properly_constructed :: "ConfigurationItem \<Rightarrow> bool" where
  "properly_constructed it =
     (case type it of
        CONFIGURATION_BOOL_TYPE \<Rightarrow> v_bool it \<noteq> None
      | CONFIGURATION_INTEGER_TYPE \<Rightarrow> v_integer it \<noteq> None
      | CONFIGURATION_DOUBLE_TYPE \<Rightarrow> v_double it \<noteq> None
      | CONFIGURATION_STRING_TYPE \<Rightarrow> True
      | CONFIGURATION_ENDOFLIST_TYPE \<Rightarrow> False
      | CONFIGURATION_NOT_DEFINED_TYPE \<Rightarrow> False)"

subsection \<open>The free functions over the registry\<close>

text \<open>
  Modelled from the spec: Configuration.h declares \<^verbatim>\<open>set_config_bool\<close>,
  \<^verbatim>\<open>set_config_double\<close>, \<^verbatim>\<open>set_config_string\<close>, \<^verbatim>\<open>get_config_as_json\<close>,
  \<^verbatim>\<open>get_config_as_json_string\<close>, \<^verbatim>\<open>set_config_json\<close> and
  \<^verbatim>\<open>set_config_as_json_string\<close>, but their bodies, the translation of a name to its key,
  and the process-wide registry they act on, are in a source file that is not among the
  sources. The definitions of this subsection follow sections 4.1 and 4.3 of the
  specification and take the registry as an argument.

  \<open>key_of(name)\<close> resolves a name through the table.
\<close>

definition key_of :: "string \<Rightarrow> configuration_keys option" where
  "key_of name =
     (case find (\<lambda>(Enum, String, Default, Desc). String = name) CONFIGURATION_KEYS_ENUM of
        Some (Enum, String, Default, Desc) \<Rightarrow> Some Enum
      | None \<Rightarrow> None)"

text \<open>
  Modelled from the spec: the bodies of the typed writers are missing. Each delegates to
  \<open>get(key).write(value)\<close>; the write acts on the entry of the map that \<open>get_item\<close>
  returns by reference.
\<close>

definition write_item ::
  "configuration_keys \<Rightarrow> (ConfigurationItem \<Rightarrow> unit outcome \<times> ConfigurationItem) \<Rightarrow>
   Configuration \<Rightarrow> unit outcome \<times> Configuration" where
  "write_item k write cfg =
     (case get_item k cfg of
        Throws e \<Rightarrow> (Throws e, cfg)
      | Undefined \<Rightarrow> (Undefined, cfg)
      | Returns it \<Rightarrow>
          (case write it of (r, it') \<Rightarrow> (r, cfg\<lparr>items := (items cfg)(k \<mapsto> it')\<rparr>)))"

definition set_config_bool :: "configuration_keys \<Rightarrow> bool \<Rightarrow> Configuration \<Rightarrow> unit outcome \<times> Configuration" where
  "set_config_bool k val cfg = write_item k (set_bool val) cfg"

definition set_config_double :: "configuration_keys \<Rightarrow> double \<Rightarrow> Configuration \<Rightarrow> unit outcome \<times> Configuration" where
  "set_config_double k val cfg = write_item k (set_double val) cfg"

definition set_config_string :: "configuration_keys \<Rightarrow> string \<Rightarrow> Configuration \<Rightarrow> unit outcome \<times> Configuration" where
  "set_config_string k val cfg = write_item k (set_string val) cfg"

text \<open>
  Modelled from the spec: the body of \<^verbatim>\<open>get_config_as_json\<close> is missing. Export builds
  one member per registry entry with \<open>add_to_json\<close>, in the order of the map, which is the
  declaration order of the keys; the document starts as the empty object.
\<close>

definition registry_entries :: "Configuration \<Rightarrow> ConfigurationItem list" where
  "registry_entries cfg = List.map_filter (items cfg) (map fst CONFIGURATION_KEYS_ENUM)"

fun export_items :: "ConfigurationItem list \<Rightarrow> json \<Rightarrow> unit outcome \<times> json" where
  "export_items [] doc = (Returns (), doc)"
| "export_items (it # its) doc =
     (case add_to_json it doc of
        (Returns _, doc') \<Rightarrow> export_items its doc'
      | (Throws e, doc') \<Rightarrow> (Throws e, doc')
      | (Undefined, doc') \<Rightarrow> (Undefined, doc'))"

definition get_config_as_json :: "Configuration \<Rightarrow> json outcome" where
  "get_config_as_json cfg =
     (case export_items (registry_entries cfg) (JObject []) of
        (Returns _, doc) \<Rightarrow> Returns doc
      | (Throws e, doc) \<Rightarrow> Throws e
      | (Undefined, doc) \<Rightarrow> Undefined)"

text \<open>
  Modelled from the spec: the body of \<^verbatim>\<open>get_config_as_json_string\<close> is missing. It
  serialises the exported document with the writer of the JSON library
  (\<^verbatim>\<open>cpjson::to_string\<close>), which is a parameter.
\<close>

definition get_config_as_json_string :: "(json \<Rightarrow> string) \<Rightarrow> Configuration \<Rightarrow> string outcome" where
  "get_config_as_json_string to_string cfg =
     (case get_config_as_json cfg of
        Returns doc \<Rightarrow> Returns (to_string doc)
      | Throws e \<Rightarrow> Throws e
      | Undefined \<Rightarrow> Undefined)"

text \<open>
  Modelled from the spec: the body of \<^verbatim>\<open>set_config_json\<close> is missing. Import resolves the
  name of every member of the document, fails with a \<open>ValueError\<close> naming the member on a
  name that is no key's, and otherwise calls \<open>set_from_json\<close> on the key's item; it stops
  at the first failure. A document that is not an object is a malformed value.
\<close>

fun import_members ::
  "(json \<Rightarrow> string) \<Rightarrow> (string \<times> json) list \<Rightarrow> Configuration \<Rightarrow> unit outcome \<times> Configuration" where
  "import_members to_string [] cfg = (Returns (), cfg)"
| "import_members to_string ((name, val) # members) cfg =
     (case key_of name of
        None \<Rightarrow> (Throws (ValueError name), cfg)
      | Some k \<Rightarrow>
          (case write_item k (set_from_json to_string val) cfg of
             (Returns _, cfg') \<Rightarrow> import_members to_string members cfg'
           | (Throws e, cfg') \<Rightarrow> (Throws e, cfg')
           | (Undefined, cfg') \<Rightarrow> (Undefined, cfg')))"

definition set_config_json :: "(json \<Rightarrow> string) \<Rightarrow> json \<Rightarrow> Configuration \<Rightarrow> unit outcome \<times> Configuration" where
  "set_config_json to_string doc cfg =
     (case doc of
        JObject members \<Rightarrow> import_members to_string members cfg
      | _ \<Rightarrow> (Throws (ValueError []), cfg))"

text \<open>
  Modelled from the spec: the body of \<^verbatim>\<open>set_config_as_json_string\<close> is missing. It
  parses the text with the parser of the JSON library, a parameter that returns \<open>None\<close>
  for text that is not well-formed, propagates \<open>ParseError\<close>, and imports the document.
\<close>

definition set_config_as_json_string ::
  "(string \<Rightarrow> json option) \<Rightarrow> (json \<Rightarrow> string) \<Rightarrow> string \<Rightarrow> Configuration \<Rightarrow> unit outcome \<times> Configuration" where
  "set_config_as_json_string parse to_string s cfg =
     (case parse s of
        None \<Rightarrow> (Throws (ParseError []), cfg)
      | Some doc \<Rightarrow> set_config_json to_string doc cfg)"

subsection \<open>Sequences of writes and the shape of items\<close>

text \<open>
  A sequence of typed writes through the typed writers; it stops at the first write that
  does not return.
\<close>

datatype typed_write =
    Write_bool configuration_keys bool
  | Write_double configuration_keys double
  | Write_string configuration_keys string

fun apply_write :: "typed_write \<Rightarrow> Configuration \<Rightarrow> unit outcome \<times> Configuration" where
  "apply_write (Write_bool k val) cfg = set_config_bool k val cfg"
| "apply_write (Write_double k val) cfg = set_config_double k val cfg"
| "apply_write (Write_string k val) cfg = set_config_string k val cfg"

fun apply_writes :: "typed_write list \<Rightarrow> Configuration \<Rightarrow> unit outcome \<times> Configuration" where
  "apply_writes [] cfg = (Returns (), cfg)"
| "apply_writes (w # ws) cfg =
     (case apply_write w cfg of
        (Returns _, cfg') \<Rightarrow> apply_writes ws cfg'
      | (Throws e, cfg') \<Rightarrow> (Throws e, cfg')
      | (Undefined, cfg') \<Rightarrow> (Undefined, cfg'))"

text \<open>
  A write is NUL-free when it writes no string with a NUL character in it.
\<close>

fun NUL_free :: "typed_write \<Rightarrow> bool" where
  "NUL_free (Write_string k val) = (CHR 0x00 \<notin> set val)"
| "NUL_free (Write_bool k val) = True"
| "NUL_free (Write_double k val) = True"

text \<open>
  \<open>same_cell it0 it\<close>: \<open>it\<close> is a properly constructed item that differs from \<open>it0\<close> in the
  value of its type only, and its string, if it is a string item, has no NUL character.
\<close>

definition same_cell :: "ConfigurationItem \<Rightarrow> ConfigurationItem \<Rightarrow> bool" where
  "same_cell it0 it =
     (properly_constructed it \<and> type it = type it0 \<and> key it = key it0 \<and>
      (if type it0 = CONFIGURATION_STRING_TYPE
       then u it = u it0 \<and> CHR 0x00 \<notin> set (v_string it)
       else v_string it = v_string it0))"

text \<open>
  The JSON value that \<open>add_to_json\<close> builds for a properly constructed item.
\<close>

definition json_of :: "ConfigurationItem \<Rightarrow> json" where
  "json_of it =
     (case type it of
        CONFIGURATION_BOOL_TYPE \<Rightarrow> (case u it of Active_bool b \<Rightarrow> JBool b | _ \<Rightarrow> JNull)
      | CONFIGURATION_INTEGER_TYPE \<Rightarrow> (case u it of Active_integer i \<Rightarrow> JInteger (sint i) | _ \<Rightarrow> JNull)
      | CONFIGURATION_DOUBLE_TYPE \<Rightarrow> (case u it of Active_double d \<Rightarrow> JDouble d | _ \<Rightarrow> JNull)
      | CONFIGURATION_STRING_TYPE \<Rightarrow> JString (c_str (v_string it))
      | _ \<Rightarrow> JNull)"

text \<open>
  Every key of the registry holds an item that differs from the key's default item in its
  value only.
\<close>

definition registry_inv :: "Configuration \<Rightarrow> bool" where
  "registry_inv cfg =
     (\<forall>k. \<exists>it0 it. items Configuration_new k = Some it0 \<and> items cfg k = Some it \<and>
                     same_cell it0 it)"

section \<open>The registry after construction\<close>

lemma items_add_item:
  "items (add_item item cfg) k =
     (case items cfg k of Some it \<Rightarrow> Some it
      | None \<Rightarrow> if k = key item then Some item else None)"
  by (simp add: add_item_def get_key_def split: option.splits)

lemma key_ConfigurationItem_of: "key (ConfigurationItem_of e d) = e"
  by (simp add: ConfigurationItem_of_def ConfigurationItem_bool_def ConfigurationItem_int_def
      ConfigurationItem_double_def ConfigurationItem_cstr_def split: literal.splits)

lemma items_fold_add_item:
  "items (fold (\<lambda>(Enum, String, Default, Desc). add_item (ConfigurationItem_of Enum Default)) rows cfg) k =
     (case items cfg k of Some it \<Rightarrow> Some it
      | None \<Rightarrow> map_option (\<lambda>row. ConfigurationItem_of (fst row) (fst (snd (snd row))))
                  (find (\<lambda>row. fst row = k) rows))"
proof (induction rows arbitrary: cfg)
  case Nil
  show ?case by (simp split: option.splits)
next
  case (Cons row rows)
  obtain e s d desc where row: "row = (e, s, d, desc)" by (cases row) auto
  show ?case
    by (auto simp: row Cons.IH items_add_item key_ConfigurationItem_of split: option.splits)
qed

lemma items_set_defaults:
  "items (set_defaults cfg) k =
     (case items cfg k of Some it \<Rightarrow> Some it
      | None \<Rightarrow> map_option (\<lambda>row. ConfigurationItem_of (fst row) (fst (snd (snd row))))
                  (find (\<lambda>row. fst row = k) CONFIGURATION_KEYS_ENUM))"
  unfolding set_defaults_def by (rule items_fold_add_item)

lemma items_Configuration_new:
  "items Configuration_new k =
     map_option (\<lambda>row. ConfigurationItem_of (fst row) (fst (snd (snd row))))
       (find (\<lambda>row. fst row = k) CONFIGURATION_KEYS_ENUM)"
  by (simp add: Configuration_new_def items_set_defaults)

lemma find_row:
  "find (\<lambda>row. fst row = k) CONFIGURATION_KEYS_ENUM =
    (case k of
      NORMALIZE_GAS_CONSTANTS \<Rightarrow> Some (CONFIGURATION_KEYS_ENUM ! 0)
    | CRITICAL_WITHIN_1UK \<Rightarrow> Some (CONFIGURATION_KEYS_ENUM ! 1)
    | CRITICAL_SPLINES_ENABLED \<Rightarrow> Some (CONFIGURATION_KEYS_ENUM ! 2)
    | SAVE_RAW_TABLES \<Rightarrow> Some (CONFIGURATION_KEYS_ENUM ! 3)
    | ALTERNATIVE_TABLES_DIRECTORY \<Rightarrow> Some (CONFIGURATION_KEYS_ENUM ! 4)
    | ALTERNATIVE_REFPROP_PATH \<Rightarrow> Some (CONFIGURATION_KEYS_ENUM ! 5)
    | ALTERNATIVE_REFPROP_HMX_BNC_PATH \<Rightarrow> Some (CONFIGURATION_KEYS_ENUM ! 6)
    | REFPROP_DONT_ESTIMATE_INTERACTION_PARAMETERS \<Rightarrow> Some (CONFIGURATION_KEYS_ENUM ! 7)
    | MAXIMUM_TABLE_DIRECTORY_SIZE_IN_GB \<Rightarrow> Some (CONFIGURATION_KEYS_ENUM ! 8)
    | DONT_CHECK_PROPERTY_LIMITS \<Rightarrow> Some (CONFIGURATION_KEYS_ENUM ! 9)
    | HENRYS_LAW_TO_GENERATE_VLE_GUESSES \<Rightarrow> Some (CONFIGURATION_KEYS_ENUM ! 10)
    | PHASE_ENVELOPE_STARTING_PRESSURE_PA \<Rightarrow> Some (CONFIGURATION_KEYS_ENUM ! 11))"
  by (cases k) (simp_all add: CONFIGURATION_KEYS_ENUM_def)

lemma default_item:
  "items Configuration_new k = Some
    (case k of
      NORMALIZE_GAS_CONSTANTS \<Rightarrow> ConfigurationItem_bool k True
    | CRITICAL_WITHIN_1UK \<Rightarrow> ConfigurationItem_bool k True
    | CRITICAL_SPLINES_ENABLED \<Rightarrow> ConfigurationItem_bool k True
    | SAVE_RAW_TABLES \<Rightarrow> ConfigurationItem_bool k False
    | ALTERNATIVE_TABLES_DIRECTORY \<Rightarrow> ConfigurationItem_cstr k []
    | ALTERNATIVE_REFPROP_PATH \<Rightarrow> ConfigurationItem_cstr k []
    | ALTERNATIVE_REFPROP_HMX_BNC_PATH \<Rightarrow> ConfigurationItem_cstr k []
    | REFPROP_DONT_ESTIMATE_INTERACTION_PARAMETERS \<Rightarrow> ConfigurationItem_bool k False
    | MAXIMUM_TABLE_DIRECTORY_SIZE_IN_GB \<Rightarrow> ConfigurationItem_double k 1
    | DONT_CHECK_PROPERTY_LIMITS \<Rightarrow> ConfigurationItem_bool k False
    | HENRYS_LAW_TO_GENERATE_VLE_GUESSES \<Rightarrow> ConfigurationItem_bool k False
    | PHASE_ENVELOPE_STARTING_PRESSURE_PA \<Rightarrow> ConfigurationItem_double k 100)"
  by (cases k) (simp_all add: items_Configuration_new CONFIGURATION_KEYS_ENUM_def ConfigurationItem_of_def)

lemma name_of_key:
  "config_key_to_string k =
    (case k of
      NORMALIZE_GAS_CONSTANTS \<Rightarrow> ''NORMALIZE_GAS_CONSTANTS''
    | CRITICAL_WITHIN_1UK \<Rightarrow> ''CRITICAL_WITHIN_1UK''
    | CRITICAL_SPLINES_ENABLED \<Rightarrow> ''CRITICAL_SPLINES_ENABLED''
    | SAVE_RAW_TABLES \<Rightarrow> ''SAVE_RAW_TABLES''
    | ALTERNATIVE_TABLES_DIRECTORY \<Rightarrow> ''ALTERNATIVE_TABLES_DIRECTORY''
    | ALTERNATIVE_REFPROP_PATH \<Rightarrow> ''ALTERNATIVE_REFPROP_PATH''
    | ALTERNATIVE_REFPROP_HMX_BNC_PATH \<Rightarrow> ''ALTERNATIVE_REFPROP_HMX_BNC_PATH''
    | REFPROP_DONT_ESTIMATE_INTERACTION_PARAMETERS \<Rightarrow> ''REFPROP_DONT_ESTIMATE_INTERACTION_PARAMETERS''
    | MAXIMUM_TABLE_DIRECTORY_SIZE_IN_GB \<Rightarrow> ''MAXIMUM_TABLE_DIRECTORY_SIZE_IN_GB''
    | DONT_CHECK_PROPERTY_LIMITS \<Rightarrow> ''DONT_CHECK_PROPERTY_LIMITS''
    | HENRYS_LAW_TO_GENERATE_VLE_GUESSES \<Rightarrow> ''HENRYS_LAW_TO_GENERATE_VLE_GUESSES''
    | PHASE_ENVELOPE_STARTING_PRESSURE_PA \<Rightarrow> ''PHASE_ENVELOPE_STARTING_PRESSURE_PA'')"
  by (cases k) (simp_all add: config_key_to_string_def CONFIGURATION_KEYS_ENUM_def)

text \<open>
  C1. Totality of the catalog: the keys of the table are pairwise distinct, and for every key
  \<open>k\<close> the table has a row for \<open>k\<close> such that \<open>get_item k\<close> on a freshly constructed
  \<open>Configuration\<close> returns an item of key \<open>k\<close> whose type tag is the one of the row's
  default value: a bool default gives \<open>CONFIGURATION_BOOL_TYPE\<close>, a double default
  \<open>CONFIGURATION_DOUBLE_TYPE\<close>, a string default \<open>CONFIGURATION_STRING_TYPE\<close>.
\<close>

theorem catalog_totality:
  "distinct (map fst CONFIGURATION_KEYS_ENUM) \<and>
   (\<exists>String Default Desc it.
      (k, String, Default, Desc) \<in> set CONFIGURATION_KEYS_ENUM \<and>
      get_item k Configuration_new = Returns it \<and>
      get_key it = k \<and>
      ((\<exists>b. Default = Bool_literal b \<and> type it = CONFIGURATION_BOOL_TYPE) \<or>
       (\<exists>d. Default = Double_literal d \<and> type it = CONFIGURATION_DOUBLE_TYPE) \<or>
       (\<exists>s. Default = String_literal s \<and> type it = CONFIGURATION_STRING_TYPE)))"
proof
  show "distinct (map fst CONFIGURATION_KEYS_ENUM)"
    by (simp add: CONFIGURATION_KEYS_ENUM_def)
  show "\<exists>String Default Desc it.
      (k, String, Default, Desc) \<in> set CONFIGURATION_KEYS_ENUM \<and>
      get_item k Configuration_new = Returns it \<and>
      get_key it = k \<and>
      ((\<exists>b. Default = Bool_literal b \<and> type it = CONFIGURATION_BOOL_TYPE) \<or>
       (\<exists>d. Default = Double_literal d \<and> type it = CONFIGURATION_DOUBLE_TYPE) \<or>
       (\<exists>s. Default = String_literal s \<and> type it = CONFIGURATION_STRING_TYPE))"
    by (cases k)
      (auto simp: get_item_def default_item get_key_def CONFIGURATION_KEYS_ENUM_def
        ConfigurationItem_bool_def ConfigurationItem_double_def ConfigurationItem_cstr_def)
qed

section \<open>Inserting a key twice\<close>

lemma fold_add_item_present:
  "\<forall>k. items cfg k \<noteq> None \<Longrightarrow>
   fold (\<lambda>(Enum, String, Default, Desc). add_item (ConfigurationItem_of Enum Default)) rows cfg = cfg"
proof (induction rows)
  case Nil
  show ?case by simp
next
  case (Cons row rows)
  obtain e s d desc where row: "row = (e, s, d, desc)" by (cases row) auto
  from Cons.prems have "items cfg (get_key (ConfigurationItem_of e d)) \<noteq> None" by blast
  then have "add_item (ConfigurationItem_of e d) cfg = cfg"
    by (auto simp: add_item_def split: option.splits)
  with Cons show ?case by (simp add: row)
qed

text \<open>
  C9. The first insertion wins: \<open>add_item\<close> of an item whose key is already in the map
  leaves the whole registry as it was; \<open>set_defaults\<close> keeps every entry that is already
  there, and on a registry that holds every key it changes nothing, so a second run of
  \<open>set_defaults\<close> overwrites no modified value.
\<close>

theorem first_insertion_wins:
  "(items cfg (get_key item) = Some existing \<longrightarrow> add_item item cfg = cfg) \<and>
   (items cfg k = Some it \<longrightarrow> items (set_defaults cfg) k = Some it) \<and>
   ((\<forall>k'. items cfg k' \<noteq> None) \<longrightarrow> set_defaults cfg = cfg)"
proof (intro conjI impI)
  assume "items cfg (get_key item) = Some existing"
  then show "add_item item cfg = cfg" by (simp add: add_item_def)
next
  assume "items cfg k = Some it"
  then show "items (set_defaults cfg) k = Some it" by (simp add: items_set_defaults)
next
  assume "\<forall>k'. items cfg k' \<noteq> None"
  then show "set_defaults cfg = cfg"
    unfolding set_defaults_def by (rule fold_add_item_present)
qed

text \<open>
  The fresh registry with \<open>SAVE_RAW_TABLES\<close> changed to true: inserting the default item
  again, and running \<open>set_defaults\<close> again, keep the changed value.
\<close>

theorem first_insertion_wins_witness:
  "items (Configuration_new\<lparr>items := (items Configuration_new)
       (SAVE_RAW_TABLES \<mapsto> ConfigurationItem_bool SAVE_RAW_TABLES True)\<rparr>)
     (get_key (ConfigurationItem_bool SAVE_RAW_TABLES False))
     = Some (ConfigurationItem_bool SAVE_RAW_TABLES True) \<and>
   add_item (ConfigurationItem_bool SAVE_RAW_TABLES False)
     (Configuration_new\<lparr>items := (items Configuration_new)
       (SAVE_RAW_TABLES \<mapsto> ConfigurationItem_bool SAVE_RAW_TABLES True)\<rparr>)
     = Configuration_new\<lparr>items := (items Configuration_new)
       (SAVE_RAW_TABLES \<mapsto> ConfigurationItem_bool SAVE_RAW_TABLES True)\<rparr> \<and>
   items (set_defaults (Configuration_new\<lparr>items := (items Configuration_new)
       (SAVE_RAW_TABLES \<mapsto> ConfigurationItem_bool SAVE_RAW_TABLES True)\<rparr>)) SAVE_RAW_TABLES
     = Some (ConfigurationItem_bool SAVE_RAW_TABLES True) \<and>
   (\<forall>k'. items (Configuration_new\<lparr>items := (items Configuration_new)
       (SAVE_RAW_TABLES \<mapsto> ConfigurationItem_bool SAVE_RAW_TABLES True)\<rparr>) k' \<noteq> None) \<and>
   set_defaults (Configuration_new\<lparr>items := (items Configuration_new)
       (SAVE_RAW_TABLES \<mapsto> ConfigurationItem_bool SAVE_RAW_TABLES True)\<rparr>)
     = Configuration_new\<lparr>items := (items Configuration_new)
       (SAVE_RAW_TABLES \<mapsto> ConfigurationItem_bool SAVE_RAW_TABLES True)\<rparr>"
proof -
  let ?cfg = "Configuration_new\<lparr>items := (items Configuration_new)
       (SAVE_RAW_TABLES \<mapsto> ConfigurationItem_bool SAVE_RAW_TABLES True)\<rparr>"
  let ?item = "ConfigurationItem_bool SAVE_RAW_TABLES False"
  have h1: "items ?cfg (get_key ?item) = Some (ConfigurationItem_bool SAVE_RAW_TABLES True)"
    by (simp add: get_key_def ConfigurationItem_bool_def)
  have h2: "items ?cfg SAVE_RAW_TABLES = Some (ConfigurationItem_bool SAVE_RAW_TABLES True)"
    by simp
  have h3: "\<forall>k'. items ?cfg k' \<noteq> None"
    by (simp add: default_item)
  from first_insertion_wins [of ?cfg ?item "ConfigurationItem_bool SAVE_RAW_TABLES True"
      SAVE_RAW_TABLES "ConfigurationItem_bool SAVE_RAW_TABLES True"] h1 h2 h3
  show ?thesis by blast
qed

section \<open>No integer defaults\<close>

text \<open>
  C10. No row of the table has an integer default; no item of a freshly constructed
  \<open>Configuration\<close> has the type tag \<open>CONFIGURATION_INTEGER_TYPE\<close>; \<open>set_defaults\<close> never
  adds an integer-typed item (one found afterwards was there before); and yet the item
  class supports integers: the \<open>int\<close> constructor gives the integer tag and
  \<open>set_integer\<close> on such an item succeeds.
\<close>

theorem no_integer_default:
  "(\<forall>row \<in> set CONFIGURATION_KEYS_ENUM. \<forall>i. fst (snd (snd row)) \<noteq> Int_literal i) \<and>
   (items Configuration_new k = Some it \<longrightarrow> type it \<noteq> CONFIGURATION_INTEGER_TYPE) \<and>
   (items (set_defaults cfg) k = Some it \<and> type it = CONFIGURATION_INTEGER_TYPE
      \<longrightarrow> items cfg k = Some it) \<and>
   type (ConfigurationItem_int k i) = CONFIGURATION_INTEGER_TYPE \<and>
   set_integer j (ConfigurationItem_int k i) = (Returns (), ConfigurationItem_int k j)"
proof (intro conjI)
  show "\<forall>row \<in> set CONFIGURATION_KEYS_ENUM. \<forall>i. fst (snd (snd row)) \<noteq> Int_literal i"
    by (simp add: CONFIGURATION_KEYS_ENUM_def)
  show "items Configuration_new k = Some it \<longrightarrow> type it \<noteq> CONFIGURATION_INTEGER_TYPE"
    by (cases k)
      (auto simp: default_item ConfigurationItem_bool_def ConfigurationItem_double_def
        ConfigurationItem_cstr_def)
  show "items (set_defaults cfg) k = Some it \<and> type it = CONFIGURATION_INTEGER_TYPE
      \<longrightarrow> items cfg k = Some it"
    by (cases k)
      (auto simp: items_set_defaults find_row CONFIGURATION_KEYS_ENUM_def ConfigurationItem_of_def
        ConfigurationItem_bool_def ConfigurationItem_double_def
        ConfigurationItem_cstr_def split: option.splits)
  show "type (ConfigurationItem_int k i) = CONFIGURATION_INTEGER_TYPE"
    by (simp add: ConfigurationItem_int_def)
  show "set_integer j (ConfigurationItem_int k i) = (Returns (), ConfigurationItem_int k j)"
    by (simp add: set_integer_def check_data_type_def ConfigurationItem_int_def)
qed

text \<open>
  The double-typed default of \<open>MAXIMUM_TABLE_DIRECTORY_SIZE_IN_GB\<close>, the first row of the
  table, and a registry that holds an integer item before \<open>set_defaults\<close> runs.
\<close>

theorem no_integer_default_witness:
  "items Configuration_new MAXIMUM_TABLE_DIRECTORY_SIZE_IN_GB
     = Some (ConfigurationItem_double MAXIMUM_TABLE_DIRECTORY_SIZE_IN_GB 1) \<and>
   type (ConfigurationItem_double MAXIMUM_TABLE_DIRECTORY_SIZE_IN_GB 1) \<noteq> CONFIGURATION_INTEGER_TYPE \<and>
   (NORMALIZE_GAS_CONSTANTS, ''NORMALIZE_GAS_CONSTANTS'', Bool_literal True,
       ''If true, for mixtures, the molar gas constant (R) will be set to the CODATA value'')
      \<in> set CONFIGURATION_KEYS_ENUM \<and>
   Bool_literal True \<noteq> Int_literal 1 \<and>
   items (set_defaults \<lparr>items = [SAVE_RAW_TABLES \<mapsto> ConfigurationItem_int SAVE_RAW_TABLES 7]\<rparr>)
       SAVE_RAW_TABLES = Some (ConfigurationItem_int SAVE_RAW_TABLES 7) \<and>
   type (ConfigurationItem_int SAVE_RAW_TABLES 7) = CONFIGURATION_INTEGER_TYPE \<and>
   items \<lparr>items = [SAVE_RAW_TABLES \<mapsto> ConfigurationItem_int SAVE_RAW_TABLES 7]\<rparr> SAVE_RAW_TABLES
     = Some (ConfigurationItem_int SAVE_RAW_TABLES 7)"
proof -
  have h: "items Configuration_new MAXIMUM_TABLE_DIRECTORY_SIZE_IN_GB
     = Some (ConfigurationItem_double MAXIMUM_TABLE_DIRECTORY_SIZE_IN_GB 1)"
    by (simp add: default_item)
  have r: "(NORMALIZE_GAS_CONSTANTS, ''NORMALIZE_GAS_CONSTANTS'', Bool_literal True,
       ''If true, for mixtures, the molar gas constant (R) will be set to the CODATA value'')
      \<in> set CONFIGURATION_KEYS_ENUM"
    by (simp add: CONFIGURATION_KEYS_ENUM_def)
  let ?cfg = "\<lparr>items = [SAVE_RAW_TABLES \<mapsto> ConfigurationItem_int SAVE_RAW_TABLES 7]\<rparr>"
  have s: "items (set_defaults ?cfg) SAVE_RAW_TABLES = Some (ConfigurationItem_int SAVE_RAW_TABLES 7)"
    by (simp add: items_set_defaults)
  have t: "type (ConfigurationItem_int SAVE_RAW_TABLES 7) = CONFIGURATION_INTEGER_TYPE"
    by (simp add: ConfigurationItem_int_def)
  from no_integer_default [of MAXIMUM_TABLE_DIRECTORY_SIZE_IN_GB
      "ConfigurationItem_double MAXIMUM_TABLE_DIRECTORY_SIZE_IN_GB 1"] h r
  have a: "type (ConfigurationItem_double MAXIMUM_TABLE_DIRECTORY_SIZE_IN_GB 1) \<noteq> CONFIGURATION_INTEGER_TYPE"
    "Bool_literal True \<noteq> Int_literal 1"
    by auto
  from no_integer_default [of SAVE_RAW_TABLES "ConfigurationItem_int SAVE_RAW_TABLES 7" ?cfg] s t
  have b: "items ?cfg SAVE_RAW_TABLES = Some (ConfigurationItem_int SAVE_RAW_TABLES 7)"
    by blast
  from h r a s t b show ?thesis by blast
qed

section \<open>Typed reads and writes\<close>

lemmas item_ops_defs =
  set_bool_def set_integer_def set_double_def set_string_def
  operator_bool_def operator_double_def operator_string_def check_data_type_def
  v_bool_def v_double_def v_integer_def

lemmas json_defs =
  IsBool_def IsInt_def IsDouble_def IsString_def IsNumber_def
  GetBool_def GetInt_def GetDouble_def GetString_def

text \<open>
  C2, as amended. For every item: a typed write (\<open>set_bool\<close>, \<open>set_integer\<close>, \<open>set_double\<close>,
  \<open>set_string\<close>) or typed read (the cast operators to bool, double and string) whose type
  differs from the item's type tag throws \<open>ValueError\<close> with the message
  ``type does not match'' and leaves the item as it was; no write changes the type tag; a
  write of the matching type returns, and the next read of that type returns the written
  value (the class has no cast operator to \<open>int\<close>: for an integer item the written value is
  the active member \<open>v_integer\<close>).
\<close>

theorem type_immutability:
  "(type it \<noteq> CONFIGURATION_BOOL_TYPE \<longrightarrow>
      set_bool b it = (Throws (ValueError ''type does not match''), it) \<and>
      operator_bool it = Throws (ValueError ''type does not match'')) \<and>
   (type it \<noteq> CONFIGURATION_INTEGER_TYPE \<longrightarrow>
      set_integer i it = (Throws (ValueError ''type does not match''), it)) \<and>
   (type it \<noteq> CONFIGURATION_DOUBLE_TYPE \<longrightarrow>
      set_double d it = (Throws (ValueError ''type does not match''), it) \<and>
      operator_double it = Throws (ValueError ''type does not match'')) \<and>
   (type it \<noteq> CONFIGURATION_STRING_TYPE \<longrightarrow>
      set_string s it = (Throws (ValueError ''type does not match''), it) \<and>
      operator_string it = Throws (ValueError ''type does not match'')) \<and>
   type (snd (set_bool b it)) = type it \<and>
   type (snd (set_integer i it)) = type it \<and>
   type (snd (set_double d it)) = type it \<and>
   type (snd (set_string s it)) = type it \<and>
   (type it = CONFIGURATION_BOOL_TYPE \<longrightarrow>
      fst (set_bool b it) = Returns () \<and> operator_bool (snd (set_bool b it)) = Returns b) \<and>
   (type it = CONFIGURATION_INTEGER_TYPE \<longrightarrow>
      fst (set_integer i it) = Returns () \<and> v_integer (snd (set_integer i it)) = Some i) \<and>
   (type it = CONFIGURATION_DOUBLE_TYPE \<longrightarrow>
      fst (set_double d it) = Returns () \<and> operator_double (snd (set_double d it)) = Returns d) \<and>
   (type it = CONFIGURATION_STRING_TYPE \<longrightarrow>
      fst (set_string s it) = Returns () \<and> operator_string (snd (set_string s it)) = Returns s)"
  by (simp add: item_ops_defs)

text \<open>
  An item of each type: the writes and reads of another type fail, the write of its own
  type succeeds and is read back.
\<close>

theorem type_immutability_witness:
  "type (ConfigurationItem_bool NORMALIZE_GAS_CONSTANTS True) = CONFIGURATION_BOOL_TYPE \<and>
   type (ConfigurationItem_bool NORMALIZE_GAS_CONSTANTS True) \<noteq> CONFIGURATION_INTEGER_TYPE \<and>
   type (ConfigurationItem_bool NORMALIZE_GAS_CONSTANTS True) \<noteq> CONFIGURATION_DOUBLE_TYPE \<and>
   type (ConfigurationItem_bool NORMALIZE_GAS_CONSTANTS True) \<noteq> CONFIGURATION_STRING_TYPE \<and>
   set_integer 7 (ConfigurationItem_bool NORMALIZE_GAS_CONSTANTS True)
     = (Throws (ValueError ''type does not match''), ConfigurationItem_bool NORMALIZE_GAS_CONSTANTS True) \<and>
   set_double 2 (ConfigurationItem_bool NORMALIZE_GAS_CONSTANTS True)
     = (Throws (ValueError ''type does not match''), ConfigurationItem_bool NORMALIZE_GAS_CONSTANTS True) \<and>
   operator_double (ConfigurationItem_bool NORMALIZE_GAS_CONSTANTS True)
     = Throws (ValueError ''type does not match'') \<and>
   set_string ''x'' (ConfigurationItem_bool NORMALIZE_GAS_CONSTANTS True)
     = (Throws (ValueError ''type does not match''), ConfigurationItem_bool NORMALIZE_GAS_CONSTANTS True) \<and>
   operator_string (ConfigurationItem_bool NORMALIZE_GAS_CONSTANTS True)
     = Throws (ValueError ''type does not match'') \<and>
   fst (set_bool False (ConfigurationItem_bool NORMALIZE_GAS_CONSTANTS True)) = Returns () \<and>
   operator_bool (snd (set_bool False (ConfigurationItem_bool NORMALIZE_GAS_CONSTANTS True)))
     = Returns False \<and>
   type (ConfigurationItem_int SAVE_RAW_TABLES 1) = CONFIGURATION_INTEGER_TYPE \<and>
   type (ConfigurationItem_int SAVE_RAW_TABLES 1) \<noteq> CONFIGURATION_BOOL_TYPE \<and>
   set_bool False (ConfigurationItem_int SAVE_RAW_TABLES 1)
     = (Throws (ValueError ''type does not match''), ConfigurationItem_int SAVE_RAW_TABLES 1) \<and>
   operator_bool (ConfigurationItem_int SAVE_RAW_TABLES 1)
     = Throws (ValueError ''type does not match'') \<and>
   fst (set_integer 7 (ConfigurationItem_int SAVE_RAW_TABLES 1)) = Returns () \<and>
   v_integer (snd (set_integer 7 (ConfigurationItem_int SAVE_RAW_TABLES 1))) = Some 7 \<and>
   type (ConfigurationItem_double MAXIMUM_TABLE_DIRECTORY_SIZE_IN_GB 1) = CONFIGURATION_DOUBLE_TYPE \<and>
   fst (set_double 2 (ConfigurationItem_double MAXIMUM_TABLE_DIRECTORY_SIZE_IN_GB 1)) = Returns () \<and>
   operator_double (snd (set_double 2 (ConfigurationItem_double MAXIMUM_TABLE_DIRECTORY_SIZE_IN_GB 1)))
     = Returns 2 \<and>
   type (ConfigurationItem_cstr ALTERNATIVE_TABLES_DIRECTORY []) = CONFIGURATION_STRING_TYPE \<and>
   fst (set_string ''x'' (ConfigurationItem_cstr ALTERNATIVE_TABLES_DIRECTORY [])) = Returns () \<and>
   operator_string (snd (set_string ''x'' (ConfigurationItem_cstr ALTERNATIVE_TABLES_DIRECTORY [])))
     = Returns ''x''"
proof -
  let ?b = "ConfigurationItem_bool NORMALIZE_GAS_CONSTANTS True"
  let ?i = "ConfigurationItem_int SAVE_RAW_TABLES 1"
  let ?d = "ConfigurationItem_double MAXIMUM_TABLE_DIRECTORY_SIZE_IN_GB 1"
  let ?s = "ConfigurationItem_cstr ALTERNATIVE_TABLES_DIRECTORY []"
  have t: "type ?b = CONFIGURATION_BOOL_TYPE" "type ?i = CONFIGURATION_INTEGER_TYPE"
    "type ?d = CONFIGURATION_DOUBLE_TYPE" "type ?s = CONFIGURATION_STRING_TYPE"
    by (simp_all add: ConfigurationItem_bool_def ConfigurationItem_int_def
        ConfigurationItem_double_def ConfigurationItem_cstr_def)
  note b = type_immutability [of ?b False 7 2 "''x''"]
  note i = type_immutability [of ?i False 7 2 "''x''"]
  note d = type_immutability [of ?d False 7 2 "''x''"]
  note s = type_immutability [of ?s False 7 2 "''x''"]
  from b t(1) have 1: "set_integer 7 ?b = (Throws (ValueError ''type does not match''), ?b)"
    "set_double 2 ?b = (Throws (ValueError ''type does not match''), ?b)"
    "operator_double ?b = Throws (ValueError ''type does not match'')"
    "set_string ''x'' ?b = (Throws (ValueError ''type does not match''), ?b)"
    "operator_string ?b = Throws (ValueError ''type does not match'')"
    "fst (set_bool False ?b) = Returns ()"
    "operator_bool (snd (set_bool False ?b)) = Returns False"
    by simp_all
  from i t(2) have 2: "set_bool False ?i = (Throws (ValueError ''type does not match''), ?i)"
    "operator_bool ?i = Throws (ValueError ''type does not match'')"
    "fst (set_integer 7 ?i) = Returns ()"
    "v_integer (snd (set_integer 7 ?i)) = Some 7"
    by simp_all
  from d t(3) have 3: "fst (set_double 2 ?d) = Returns ()"
    "operator_double (snd (set_double 2 ?d)) = Returns 2"
    by simp_all
  from s t(4) have 4: "fst (set_string ''x'' ?s) = Returns ()"
    "operator_string (snd (set_string ''x'' ?s)) = Returns ''x''"
    by simp_all
  from t 1 2 3 4 show ?thesis by simp
qed

text \<open>
  C2 as stated fails: the mismatching write and read throw \<open>ValueError\<close>, the one exception
  class of Configuration.h, not a \<open>TypeMismatch\<close>.
\<close>

theorem type_mismatch_is_ValueError:
  "fst (set_double 2 (ConfigurationItem_bool NORMALIZE_GAS_CONSTANTS True))
     = Throws (ValueError ''type does not match'') \<and>
   fst (set_double 2 (ConfigurationItem_bool NORMALIZE_GAS_CONSTANTS True))
     \<noteq> Throws (TypeMismatch ''type does not match'') \<and>
   operator_double (ConfigurationItem_bool NORMALIZE_GAS_CONSTANTS True)
     = Throws (ValueError ''type does not match'') \<and>
   operator_double (ConfigurationItem_bool NORMALIZE_GAS_CONSTANTS True)
     \<noteq> Throws (TypeMismatch ''type does not match'')"
  by (simp add: item_ops_defs ConfigurationItem_bool_def)

lemma set_from_json_defined: "fst (set_from_json to_string val it) \<noteq> Undefined"
  by (cases val) (auto simp: set_from_json_def json_defs split: ConfigurationDataTypes.splits)

section \<open>Failed updates\<close>

text \<open>
  C5. Whenever \<open>set_from_json\<close> or a typed write throws, the item is exactly as it was
  before the call; \<open>set_from_json\<close> always returns or throws (its getters are guarded by
  their predicates).
\<close>

theorem failed_update_is_atomic:
  "(fst (set_from_json to_string val it) = Throws e \<longrightarrow> snd (set_from_json to_string val it) = it) \<and>
   (fst (set_bool b it) = Throws e \<longrightarrow> snd (set_bool b it) = it) \<and>
   (fst (set_integer i it) = Throws e \<longrightarrow> snd (set_integer i it) = it) \<and>
   (fst (set_double d it) = Throws e \<longrightarrow> snd (set_double d it) = it) \<and>
   (fst (set_string s it) = Throws e \<longrightarrow> snd (set_string s it) = it) \<and>
   fst (set_from_json to_string val it) \<noteq> Undefined"
proof (intro conjI)
  show "fst (set_from_json to_string val it) = Throws e \<longrightarrow> snd (set_from_json to_string val it) = it"
    by (cases val) (auto simp: set_from_json_def json_defs split: ConfigurationDataTypes.splits)
  show "fst (set_from_json to_string val it) \<noteq> Undefined"
    by (rule set_from_json_defined)
qed (simp_all add: item_ops_defs)

text \<open>
  A JSON string offered to a bool item, and typed writes of another type on a bool item and
  on a string item: all throw and leave the item unchanged.
\<close>

theorem failed_update_is_atomic_witness:
  "fst (set_from_json (\<lambda>v. ''?'') (JString ''yes'') (ConfigurationItem_bool NORMALIZE_GAS_CONSTANTS True))
     = Throws (ValueError ''Input is not boolean'') \<and>
   snd (set_from_json (\<lambda>v. ''?'') (JString ''yes'') (ConfigurationItem_bool NORMALIZE_GAS_CONSTANTS True))
     = ConfigurationItem_bool NORMALIZE_GAS_CONSTANTS True \<and>
   fst (set_string ''x'' (ConfigurationItem_bool NORMALIZE_GAS_CONSTANTS True))
     = Throws (ValueError ''type does not match'') \<and>
   snd (set_string ''x'' (ConfigurationItem_bool NORMALIZE_GAS_CONSTANTS True))
     = ConfigurationItem_bool NORMALIZE_GAS_CONSTANTS True \<and>
   fst (set_integer 7 (ConfigurationItem_bool NORMALIZE_GAS_CONSTANTS True))
     = Throws (ValueError ''type does not match'') \<and>
   snd (set_integer 7 (ConfigurationItem_bool NORMALIZE_GAS_CONSTANTS True))
     = ConfigurationItem_bool NORMALIZE_GAS_CONSTANTS True \<and>
   fst (set_double 2 (ConfigurationItem_bool NORMALIZE_GAS_CONSTANTS True))
     = Throws (ValueError ''type does not match'') \<and>
   snd (set_double 2 (ConfigurationItem_bool NORMALIZE_GAS_CONSTANTS True))
     = ConfigurationItem_bool NORMALIZE_GAS_CONSTANTS True \<and>
   fst (set_bool True (ConfigurationItem_cstr ALTERNATIVE_TABLES_DIRECTORY []))
     = Throws (ValueError ''type does not match'') \<and>
   snd (set_bool True (ConfigurationItem_cstr ALTERNATIVE_TABLES_DIRECTORY []))
     = ConfigurationItem_cstr ALTERNATIVE_TABLES_DIRECTORY []"
proof -
  let ?b = "ConfigurationItem_bool NORMALIZE_GAS_CONSTANTS True"
  let ?s = "ConfigurationItem_cstr ALTERNATIVE_TABLES_DIRECTORY []"
  let ?ts = "\<lambda>v::json. ''?''"
  have a: "fst (set_from_json ?ts (JString ''yes'') ?b) = Throws (ValueError ''Input is not boolean'')"
    by (simp add: set_from_json_def json_defs ConfigurationItem_bool_def)
  have b: "fst (set_string ''x'' ?b) = Throws (ValueError ''type does not match'')"
    "fst (set_integer 7 ?b) = Throws (ValueError ''type does not match'')"
    "fst (set_double 2 ?b) = Throws (ValueError ''type does not match'')"
    "fst (set_bool True ?s) = Throws (ValueError ''type does not match'')"
    by (simp_all add: item_ops_defs ConfigurationItem_bool_def ConfigurationItem_cstr_def)
  from failed_update_is_atomic [of ?ts "JString ''yes''" ?b "ValueError ''Input is not boolean''"] a
  have c: "snd (set_from_json ?ts (JString ''yes'') ?b) = ?b" by blast
  from failed_update_is_atomic [of ?ts "JString ''yes''" ?b "ValueError ''type does not match''"
      True 7 2 "''x''"] b
  have d: "snd (set_string ''x'' ?b) = ?b" "snd (set_integer 7 ?b) = ?b" "snd (set_double 2 ?b) = ?b"
    by blast+
  from failed_update_is_atomic [of ?ts "JString ''yes''" ?s "ValueError ''type does not match''"
      True 7 2 "''x''"] b
  have e: "snd (set_bool True ?s) = ?s" by blast
  from a b c d e show ?thesis by simp
qed

section \<open>Looking up an absent key\<close>

text \<open>
  C7, as amended. \<open>get_item\<close> of a key that is not in the map throws \<open>ValueError\<close> with the
  message ``invalid item'', the exception class that type mismatches and rejected JSON
  values raise as well; for a key in the map it returns the item.
\<close>

theorem absent_key_throws_ValueError:
  "(items cfg k = None \<longrightarrow> get_item k cfg = Throws (ValueError ''invalid item'')) \<and>
   (items cfg k = Some it \<longrightarrow> get_item k cfg = Returns it)"
  by (simp add: get_item_def)


text \<open>
  The fresh registry, and the fresh registry with \<open>SAVE_RAW_TABLES\<close> erased through the
  map that \<open>get_items\<close> hands out.
\<close>

theorem absent_key_throws_ValueError_witness:
  "items (Configuration_new\<lparr>items := (items Configuration_new)(SAVE_RAW_TABLES := None)\<rparr>)
     SAVE_RAW_TABLES = None \<and>
   get_item SAVE_RAW_TABLES
     (Configuration_new\<lparr>items := (items Configuration_new)(SAVE_RAW_TABLES := None)\<rparr>)
     = Throws (ValueError ''invalid item'') \<and>
   items Configuration_new SAVE_RAW_TABLES = Some (ConfigurationItem_bool SAVE_RAW_TABLES False) \<and>
   get_item SAVE_RAW_TABLES Configuration_new = Returns (ConfigurationItem_bool SAVE_RAW_TABLES False)"
proof -
  let ?cfg = "Configuration_new\<lparr>items := (items Configuration_new)(SAVE_RAW_TABLES := None)\<rparr>"
  have a: "items ?cfg SAVE_RAW_TABLES = None" by simp
  have b: "items Configuration_new SAVE_RAW_TABLES = Some (ConfigurationItem_bool SAVE_RAW_TABLES False)"
    by (simp add: default_item)
  from absent_key_throws_ValueError [of ?cfg SAVE_RAW_TABLES] a
    absent_key_throws_ValueError [of Configuration_new SAVE_RAW_TABLES
      "ConfigurationItem_bool SAVE_RAW_TABLES False"] b
  show ?thesis by blast
qed

text \<open>
  C7 as stated fails: the exception for the absent key is a \<open>ValueError\<close>, not a
  \<open>NotFound\<close>.
\<close>

theorem absent_key_is_not_NotFound:
  "get_item SAVE_RAW_TABLES
     (Configuration_new\<lparr>items := (items Configuration_new)(SAVE_RAW_TABLES := None)\<rparr>)
     = Throws (ValueError ''invalid item'') \<and>
   get_item SAVE_RAW_TABLES
     (Configuration_new\<lparr>items := (items Configuration_new)(SAVE_RAW_TABLES := None)\<rparr>)
     \<noteq> Throws (NotFound ''invalid item'')"
  by (simp add: get_item_def)

section \<open>Conversion to a JSON member\<close>

lemma c_str_no_NUL: "CHR 0x00 \<notin> set s \<Longrightarrow> c_str s = s"
  unfolding c_str_def by (rule takeWhile_eq_all_conv [THEN iffD2]) auto

lemma c_str_config_key_to_string: "c_str (config_key_to_string k) = config_key_to_string k"
  by (cases k) (simp_all add: name_of_key c_str_def)

lemma IsInt_sint: "IsInt (JInteger (sint (i :: c_int)))"
proof -
  have "- 2147483648 \<le> sint i" using sint_ge [of i] by simp
  moreover have "sint i \<le> 2147483647" using sint_lt [of i] by simp
  ultimately show ?thesis by (simp add: IsInt_def)
qed

lemma constructors_properly_constructed:
  "properly_constructed (ConfigurationItem_bool k b)"
  "properly_constructed (ConfigurationItem_int k i)"
  "properly_constructed (ConfigurationItem_double k d)"
  "properly_constructed (ConfigurationItem_cstr k s)"
  "properly_constructed (ConfigurationItem_string k s)"
  by (simp_all add: properly_constructed_def ConfigurationItem_bool_def ConfigurationItem_int_def
      ConfigurationItem_double_def ConfigurationItem_cstr_def ConfigurationItem_string_def
      v_bool_def v_integer_def v_double_def)

lemma writes_keep_properly_constructed:
  assumes "properly_constructed it"
  shows "properly_constructed (snd (set_bool b it))"
    and "properly_constructed (snd (set_integer i it))"
    and "properly_constructed (snd (set_double d it))"
    and "properly_constructed (snd (set_string s it))"
  using assms
  by (auto simp: properly_constructed_def item_ops_defs split: ConfigurationDataTypes.splits)

lemma set_from_json_keeps_properly_constructed:
  "properly_constructed it \<Longrightarrow> properly_constructed (snd (set_from_json to_string val it))"
  by (cases val)
    (auto simp: properly_constructed_def set_from_json_def json_defs v_bool_def v_integer_def
      v_double_def split: ConfigurationDataTypes.splits)

text \<open>
  C6, as amended. \<open>add_to_json\<close> on an item whose type tag is
  \<open>CONFIGURATION_NOT_DEFINED_TYPE\<close> (or \<open>CONFIGURATION_ENDOFLIST_TYPE\<close>) throws \<open>ValueError\<close>
  with the empty message and leaves the JSON object as it was. On a properly constructed
  item it returns, having appended to the object one member named by the key's string whose
  JSON type mirrors the tag: bool gives a boolean, int a number (an int), double a number
  (a double), string a string.
\<close>

theorem add_to_json_outcome:
  "((type it = CONFIGURATION_NOT_DEFINED_TYPE \<or> type it = CONFIGURATION_ENDOFLIST_TYPE) \<longrightarrow>
      add_to_json it val = (Throws (ValueError []), val)) \<and>
   (properly_constructed it \<longrightarrow>
      (\<exists>v. add_to_json it (JObject members)
              = (Returns (), JObject (members @ [(config_key_to_string (key it), v)])) \<and>
           (type it = CONFIGURATION_BOOL_TYPE \<longrightarrow> IsBool v) \<and>
           (type it = CONFIGURATION_INTEGER_TYPE \<longrightarrow> IsNumber v \<and> IsInt v) \<and>
           (type it = CONFIGURATION_DOUBLE_TYPE \<longrightarrow> IsNumber v \<and> IsDouble v) \<and>
           (type it = CONFIGURATION_STRING_TYPE \<longrightarrow> IsString v)))"
proof (intro conjI impI)
  assume "type it = CONFIGURATION_NOT_DEFINED_TYPE \<or> type it = CONFIGURATION_ENDOFLIST_TYPE"
  then show "add_to_json it val = (Throws (ValueError []), val)"
    by (auto simp: add_to_json_def)
next
  assume pc: "properly_constructed it"
  show "\<exists>v. add_to_json it (JObject members)
              = (Returns (), JObject (members @ [(config_key_to_string (key it), v)])) \<and>
           (type it = CONFIGURATION_BOOL_TYPE \<longrightarrow> IsBool v) \<and>
           (type it = CONFIGURATION_INTEGER_TYPE \<longrightarrow> IsNumber v \<and> IsInt v) \<and>
           (type it = CONFIGURATION_DOUBLE_TYPE \<longrightarrow> IsNumber v \<and> IsDouble v) \<and>
           (type it = CONFIGURATION_STRING_TYPE \<longrightarrow> IsString v)"
  proof (cases "type it")
    case CONFIGURATION_BOOL_TYPE
    with pc obtain b where "v_bool it = Some b" by (auto simp: properly_constructed_def)
    with CONFIGURATION_BOOL_TYPE show ?thesis
      by (simp add: add_to_json_def AddMember_def c_str_config_key_to_string IsBool_def)
  next
    case CONFIGURATION_INTEGER_TYPE
    with pc obtain i where "v_integer it = Some i" by (auto simp: properly_constructed_def)
    with CONFIGURATION_INTEGER_TYPE show ?thesis
      by (simp add: add_to_json_def AddMember_def c_str_config_key_to_string IsInt_sint IsNumber_def)
  next
    case CONFIGURATION_DOUBLE_TYPE
    with pc obtain d where "v_double it = Some d" by (auto simp: properly_constructed_def)
    with CONFIGURATION_DOUBLE_TYPE show ?thesis
      by (simp add: add_to_json_def AddMember_def c_str_config_key_to_string IsDouble_def IsNumber_def)
  next
    case CONFIGURATION_STRING_TYPE
    then show ?thesis
      by (simp add: add_to_json_def AddMember_def c_str_config_key_to_string IsString_def)
  qed (use pc in \<open>simp_all add: properly_constructed_def\<close>)
qed

text \<open>
  An item with the undefined tag, and a constructed item of each type.
\<close>

theorem add_to_json_outcome_witness:
  "type \<lparr>type = CONFIGURATION_NOT_DEFINED_TYPE, u = Indeterminate, v_string = [],
         key = SAVE_RAW_TABLES\<rparr> = CONFIGURATION_NOT_DEFINED_TYPE \<and>
   add_to_json \<lparr>type = CONFIGURATION_NOT_DEFINED_TYPE, u = Indeterminate, v_string = [],
         key = SAVE_RAW_TABLES\<rparr> (JObject []) = (Throws (ValueError []), JObject []) \<and>
   properly_constructed (ConfigurationItem_bool SAVE_RAW_TABLES False) \<and>
   add_to_json (ConfigurationItem_bool SAVE_RAW_TABLES False) (JObject [])
     = (Returns (), JObject [(''SAVE_RAW_TABLES'', JBool False)]) \<and>
   IsBool (JBool False) \<and>
   properly_constructed (ConfigurationItem_int SAVE_RAW_TABLES (- 3)) \<and>
   add_to_json (ConfigurationItem_int SAVE_RAW_TABLES (- 3)) (JObject [])
     = (Returns (), JObject [(''SAVE_RAW_TABLES'', JInteger (- 3))]) \<and>
   IsNumber (JInteger (- 3)) \<and> IsInt (JInteger (- 3)) \<and>
   properly_constructed (ConfigurationItem_double MAXIMUM_TABLE_DIRECTORY_SIZE_IN_GB 1) \<and>
   add_to_json (ConfigurationItem_double MAXIMUM_TABLE_DIRECTORY_SIZE_IN_GB 1) (JObject [])
     = (Returns (), JObject [(''MAXIMUM_TABLE_DIRECTORY_SIZE_IN_GB'', JDouble 1)]) \<and>
   IsNumber (JDouble 1) \<and> IsDouble (JDouble 1) \<and>
   properly_constructed (ConfigurationItem_string ALTERNATIVE_REFPROP_PATH ''/opt'') \<and>
   add_to_json (ConfigurationItem_string ALTERNATIVE_REFPROP_PATH ''/opt'') (JObject [])
     = (Returns (), JObject [(''ALTERNATIVE_REFPROP_PATH'', JString ''/opt'')]) \<and>
   IsString (JString ''/opt'')"
proof -
  let ?bad = "\<lparr>type = CONFIGURATION_NOT_DEFINED_TYPE, u = Indeterminate, v_string = [],
         key = SAVE_RAW_TABLES\<rparr>"
  let ?b = "ConfigurationItem_bool SAVE_RAW_TABLES False"
  let ?i = "ConfigurationItem_int SAVE_RAW_TABLES (- 3)"
  let ?d = "ConfigurationItem_double MAXIMUM_TABLE_DIRECTORY_SIZE_IN_GB 1"
  let ?s = "ConfigurationItem_string ALTERNATIVE_REFPROP_PATH ''/opt''"
  have a: "type ?bad = CONFIGURATION_NOT_DEFINED_TYPE" by simp
  have pc: "properly_constructed ?b" "properly_constructed ?i" "properly_constructed ?d"
    "properly_constructed ?s"
    by (rule constructors_properly_constructed)+
  have t: "type ?b = CONFIGURATION_BOOL_TYPE" "type ?i = CONFIGURATION_INTEGER_TYPE"
    "type ?d = CONFIGURATION_DOUBLE_TYPE" "type ?s = CONFIGURATION_STRING_TYPE"
    by (simp_all add: ConfigurationItem_bool_def ConfigurationItem_int_def
        ConfigurationItem_double_def ConfigurationItem_string_def)
  have e: "add_to_json ?b (JObject []) = (Returns (), JObject [(''SAVE_RAW_TABLES'', JBool False)])"
    "add_to_json ?i (JObject []) = (Returns (), JObject [(''SAVE_RAW_TABLES'', JInteger (- 3))])"
    "add_to_json ?d (JObject [])
       = (Returns (), JObject [(''MAXIMUM_TABLE_DIRECTORY_SIZE_IN_GB'', JDouble 1)])"
    "add_to_json ?s (JObject [])
       = (Returns (), JObject [(''ALTERNATIVE_REFPROP_PATH'', JString ''/opt'')])"
    by (simp_all add: add_to_json_def AddMember_def name_of_key c_str_def v_bool_def v_integer_def
        v_double_def ConfigurationItem_bool_def ConfigurationItem_int_def
        ConfigurationItem_double_def ConfigurationItem_string_def)
  from add_to_json_outcome [of ?bad "JObject []"] a
  have c: "add_to_json ?bad (JObject []) = (Throws (ValueError []), JObject [])" by blast
  from add_to_json_outcome [of ?b _ "[]"] pc(1) t(1) e(1) have 1: "IsBool (JBool False)" by auto
  from add_to_json_outcome [of ?i _ "[]"] pc(2) t(2) e(2)
  have 2: "IsNumber (JInteger (- 3)) \<and> IsInt (JInteger (- 3))" by auto
  from add_to_json_outcome [of ?d _ "[]"] pc(3) t(3) e(3)
  have 3: "IsNumber (JDouble 1) \<and> IsDouble (JDouble 1)" by auto
  from add_to_json_outcome [of ?s _ "[]"] pc(4) t(4) e(4) have 4: "IsString (JString ''/opt'')" by auto
  from a c pc e 1 2 3 4 show ?thesis by blast
qed

text \<open>
  C6 as stated fails: with the undefined tag the exception is a \<open>ValueError\<close>, not an
  \<open>InternalError\<close>.
\<close>

theorem undefined_tag_is_not_InternalError:
  "fst (add_to_json \<lparr>type = CONFIGURATION_NOT_DEFINED_TYPE, u = Indeterminate, v_string = [],
         key = SAVE_RAW_TABLES\<rparr> (JObject [])) = Throws (ValueError []) \<and>
   fst (add_to_json \<lparr>type = CONFIGURATION_NOT_DEFINED_TYPE, u = Indeterminate, v_string = [],
         key = SAVE_RAW_TABLES\<rparr> (JObject [])) \<noteq> Throws (InternalError [])"
  by (simp add: add_to_json_def)


section \<open>Import of a JSON value\<close>

lemma sint_word_of_int_c_int:
  "- 2147483648 \<le> n \<Longrightarrow> n \<le> 2147483647 \<Longrightarrow> sint (word_of_int n :: c_int) = n"
  by (simp add: sint_sbintrunc' signed_take_bit_int_eq_self)

text \<open>
  Where \<open>set_from_json\<close> does what is expected of it: a double item stores a JSON integer
  that a C++ \<open>int\<close> can represent widened to double, stores a JSON double as it is, and
  throws \<open>ValueError\<close> for a value that is no number; a bool, integer or string item
  takes a value of exactly its type and throws \<open>ValueError\<close> for any other, leaving the
  item unchanged.
\<close>

lemma set_from_json_cases:
  "(type it = CONFIGURATION_DOUBLE_TYPE \<longrightarrow>
      (IsInt val \<longrightarrow> (\<exists>n. val = JInteger n \<and>
         set_from_json to_string val it = (Returns (), it\<lparr>u := Active_double (real_of_int n)\<rparr>))) \<and>
      (IsDouble val \<longrightarrow> (\<exists>d. val = JDouble d \<and>
         set_from_json to_string val it = (Returns (), it\<lparr>u := Active_double d\<rparr>))) \<and>
      (\<not> IsNumber val \<longrightarrow>
         (\<exists>m. set_from_json to_string val it = (Throws (ValueError m), it)))) \<and>
   (type it = CONFIGURATION_BOOL_TYPE \<longrightarrow>
      (IsBool val \<longrightarrow> (\<exists>b. val = JBool b \<and>
         set_from_json to_string val it = (Returns (), it\<lparr>u := Active_bool b\<rparr>))) \<and>
      (\<not> IsBool val \<longrightarrow>
         (\<exists>m. set_from_json to_string val it = (Throws (ValueError m), it)))) \<and>
   (type it = CONFIGURATION_INTEGER_TYPE \<longrightarrow>
      (IsInt val \<longrightarrow> (\<exists>n. val = JInteger n \<and>
         set_from_json to_string val it = (Returns (), it\<lparr>u := Active_integer (word_of_int n)\<rparr>))) \<and>
      (\<not> IsInt val \<longrightarrow>
         (\<exists>m. set_from_json to_string val it = (Throws (ValueError m), it)))) \<and>
   (type it = CONFIGURATION_STRING_TYPE \<longrightarrow>
      (IsString val \<longrightarrow> (\<exists>s. val = JString s \<and>
         set_from_json to_string val it = (Returns (), it\<lparr>v_string := c_str s\<rparr>))) \<and>
      (\<not> IsString val \<longrightarrow>
         (\<exists>m. set_from_json to_string val it = (Throws (ValueError m), it))))"
  by (cases val)
    (auto simp: set_from_json_def json_defs static_cast_double_def sint_word_of_int_c_int)

text \<open>
  C3. The widening that \<open>set_from_json\<close> attempts on a double item misses the JSON
  integers that a C++ \<open>int\<close> cannot represent. Offered the JSON integer 3000000000, the
  default item of \<open>MAXIMUM_TABLE_DIRECTORY_SIZE_IN_GB\<close> throws \<open>ValueError\<close> with the
  message that the input is not a double ``or something that can be cast to double'' and
  keeps its value, although the same number offered as a JSON double is stored, and the
  JSON integer 2 is stored widened to the double 2.
\<close>

theorem large_json_integer_rejected:
  "set_from_json (\<lambda>v. ''3000000000'') (JInteger 3000000000)
     (ConfigurationItem_double MAXIMUM_TABLE_DIRECTORY_SIZE_IN_GB 1)
   = (Throws (ValueError
        ''Input [3000000000] is not double (or something that can be cast to double)''),
      ConfigurationItem_double MAXIMUM_TABLE_DIRECTORY_SIZE_IN_GB 1) \<and>
   set_from_json (\<lambda>v. ''3000000000.0'') (JDouble 3000000000)
     (ConfigurationItem_double MAXIMUM_TABLE_DIRECTORY_SIZE_IN_GB 1)
   = (Returns (), ConfigurationItem_double MAXIMUM_TABLE_DIRECTORY_SIZE_IN_GB 3000000000) \<and>
   set_from_json (\<lambda>v. ''2'') (JInteger 2)
     (ConfigurationItem_double MAXIMUM_TABLE_DIRECTORY_SIZE_IN_GB 1)
   = (Returns (), ConfigurationItem_double MAXIMUM_TABLE_DIRECTORY_SIZE_IN_GB 2) \<and>
   operator_double (ConfigurationItem_double MAXIMUM_TABLE_DIRECTORY_SIZE_IN_GB 2) = Returns 2"
  by (simp add: set_from_json_def json_defs ConfigurationItem_double_def static_cast_double_def
      item_ops_defs)

section \<open>Error messages\<close>

lemma underscore_in_name: "CHR ''_'' \<in> set (config_key_to_string k)"
  by (cases k) (simp_all add: name_of_key)

lemma not_named:
  "CHR ''_'' \<notin> set m \<Longrightarrow> \<not> sublist (config_key_to_string k) m"
  using underscore_in_name [of k] set_mono_sublist [of "config_key_to_string k" m] by blast

text \<open>
  C8, as amended. The messages of \<open>check_data_type\<close> and \<open>get_item\<close> do not name the
  key: \<open>check_data_type\<close> throws \<open>ValueError\<close> with the fixed message
  ``type does not match'' and \<open>get_item\<close> with the fixed message ``invalid item'', and
  neither message contains the string of any key. A \<open>ValueError\<close> thrown by
  \<open>set_from_json\<close> on an item that is not a double item (its bool, integer and string
  branches) has a message that contains the string of no key. The \<open>ValueError\<close> of the
  double branch has the message ``Input [\<open>v\<close>] is not double (or something that can be
  cast to double)'', where \<open>v\<close> is the rejected JSON value as \<open>to_string\<close> renders it.
\<close>

theorem error_messages:
  "(t \<noteq> type it \<longrightarrow> check_data_type t it = Throws (ValueError ''type does not match'')) \<and>
   (items cfg k = None \<longrightarrow> get_item k cfg = Throws (ValueError ''invalid item'')) \<and>
   \<not> sublist (config_key_to_string k') ''type does not match'' \<and>
   \<not> sublist (config_key_to_string k') ''invalid item'' \<and>
   (type it \<noteq> CONFIGURATION_DOUBLE_TYPE \<and> fst (set_from_json to_string val it) = Throws e \<longrightarrow>
      (\<exists>m. e = ValueError m \<and> \<not> sublist (config_key_to_string k') m)) \<and>
   (type it = CONFIGURATION_DOUBLE_TYPE \<and> \<not> IsDouble val \<and> \<not> IsInt val \<longrightarrow>
      set_from_json to_string val it
        = (Throws (ValueError (''Input ['' @ to_string val @
             ''] is not double (or something that can be cast to double)'')), it))"
proof (intro conjI)
  show "\<not> sublist (config_key_to_string k') ''type does not match''"
    by (rule not_named) simp
  show "\<not> sublist (config_key_to_string k') ''invalid item''"
    by (rule not_named) simp
  have m: "\<not> sublist (config_key_to_string k') ''Input is not boolean''"
    "\<not> sublist (config_key_to_string k') ''Input is not integer''"
    "\<not> sublist (config_key_to_string k') ''Input is not string''"
    "\<not> sublist (config_key_to_string k') []"
    by (rule not_named, simp)+
  show "type it \<noteq> CONFIGURATION_DOUBLE_TYPE \<and> fst (set_from_json to_string val it) = Throws e \<longrightarrow>
      (\<exists>m. e = ValueError m \<and> \<not> sublist (config_key_to_string k') m)"
    using m
    by (cases "type it"; cases "IsBool val"; cases "IsInt val"; cases "IsString val")
       (auto simp: set_from_json_def GetBool_def GetInt_def GetString_def IsBool_def IsString_def
          split: json.splits)
qed (simp_all add: check_data_type_def get_item_def set_from_json_def)


text \<open>
  The bool item of \<open>SAVE_RAW_TABLES\<close> read as a double and offered a JSON string, a registry
  without \<open>SAVE_RAW_TABLES\<close>, and the double item of \<open>MAXIMUM_TABLE_DIRECTORY_SIZE_IN_GB\<close>
  offered a JSON string.
\<close>

theorem error_messages_witness:
  "CONFIGURATION_DOUBLE_TYPE \<noteq> type (ConfigurationItem_bool SAVE_RAW_TABLES False) \<and>
   check_data_type CONFIGURATION_DOUBLE_TYPE (ConfigurationItem_bool SAVE_RAW_TABLES False)
     = Throws (ValueError ''type does not match'') \<and>
   \<not> sublist (config_key_to_string SAVE_RAW_TABLES) ''type does not match'' \<and>
   items (Configuration_new\<lparr>items := (items Configuration_new)(SAVE_RAW_TABLES := None)\<rparr>)
     SAVE_RAW_TABLES = None \<and>
   get_item SAVE_RAW_TABLES
     (Configuration_new\<lparr>items := (items Configuration_new)(SAVE_RAW_TABLES := None)\<rparr>)
     = Throws (ValueError ''invalid item'') \<and>
   \<not> sublist (config_key_to_string SAVE_RAW_TABLES) ''invalid item'' \<and>
   fst (set_from_json (\<lambda>v. ''yes'') (JString ''yes'') (ConfigurationItem_bool SAVE_RAW_TABLES False))
     = Throws (ValueError ''Input is not boolean'') \<and>
   \<not> sublist (config_key_to_string SAVE_RAW_TABLES) ''Input is not boolean'' \<and>
   type (ConfigurationItem_double MAXIMUM_TABLE_DIRECTORY_SIZE_IN_GB 1) = CONFIGURATION_DOUBLE_TYPE \<and>
   \<not> IsDouble (JString ''yes'') \<and> \<not> IsInt (JString ''yes'') \<and>
   set_from_json (\<lambda>v. ''yes'') (JString ''yes'')
       (ConfigurationItem_double MAXIMUM_TABLE_DIRECTORY_SIZE_IN_GB 1)
     = (Throws (ValueError ''Input [yes] is not double (or something that can be cast to double)''),
        ConfigurationItem_double MAXIMUM_TABLE_DIRECTORY_SIZE_IN_GB 1)"
proof -
  let ?b = "ConfigurationItem_bool SAVE_RAW_TABLES False"
  let ?d = "ConfigurationItem_double MAXIMUM_TABLE_DIRECTORY_SIZE_IN_GB 1"
  let ?ts = "\<lambda>v::json. ''yes''"
  have tb: "type ?b = CONFIGURATION_BOOL_TYPE" by (simp add: ConfigurationItem_bool_def)
  have td: "type ?d = CONFIGURATION_DOUBLE_TYPE" by (simp add: ConfigurationItem_double_def)
  have fb: "fst (set_from_json ?ts (JString ''yes'') ?b) = Throws (ValueError ''Input is not boolean'')"
    by (simp add: set_from_json_def tb IsBool_def)
  have nj: "\<not> IsDouble (JString ''yes'')" "\<not> IsInt (JString ''yes'')"
    by (simp_all add: IsDouble_def IsInt_def)
  let ?cfg = "Configuration_new\<lparr>items := (items Configuration_new)(SAVE_RAW_TABLES := None)\<rparr>"
  have ab: "items ?cfg SAVE_RAW_TABLES = None" by simp
  note b = error_messages [of CONFIGURATION_DOUBLE_TYPE ?b ?cfg SAVE_RAW_TABLES SAVE_RAW_TABLES ?ts
      "JString ''yes''" "ValueError ''Input is not boolean''"]
  from b ab have 5: "get_item SAVE_RAW_TABLES ?cfg = Throws (ValueError ''invalid item'')"
    by blast
  from b have 6: "\<not> sublist (config_key_to_string SAVE_RAW_TABLES) ''invalid item''"
    by blast
  note d = error_messages [of CONFIGURATION_DOUBLE_TYPE ?d _ _ SAVE_RAW_TABLES ?ts "JString ''yes''"]
  from b tb have 1: "check_data_type CONFIGURATION_DOUBLE_TYPE ?b = Throws (ValueError ''type does not match'')"
    by simp
  from b have 2: "\<not> sublist (config_key_to_string SAVE_RAW_TABLES) ''type does not match''"
    by blast
  from b tb fb have 3: "\<not> sublist (config_key_to_string SAVE_RAW_TABLES) ''Input is not boolean''"
    by auto
  from d td nj have 4: "set_from_json ?ts (JString ''yes'') ?d
     = (Throws (ValueError ''Input [yes] is not double (or something that can be cast to double)''), ?d)"
    by simp
  from tb td fb nj ab 1 2 3 4 5 6 show ?thesis by simp
qed

text \<open>
  C8 as stated fails: the message of the type check on the item of \<open>SAVE_RAW_TABLES\<close> does
  not contain \<open>SAVE_RAW_TABLES\<close>.
\<close>

theorem message_does_not_name_key:
  "check_data_type CONFIGURATION_DOUBLE_TYPE (ConfigurationItem_bool SAVE_RAW_TABLES False)
     = Throws (ValueError ''type does not match'') \<and>
   config_key_to_string (key (ConfigurationItem_bool SAVE_RAW_TABLES False)) = ''SAVE_RAW_TABLES'' \<and>
   \<not> sublist ''SAVE_RAW_TABLES'' ''type does not match''"
proof -
  have "\<not> sublist (config_key_to_string SAVE_RAW_TABLES) ''type does not match''"
    by (rule not_named) simp
  then show ?thesis
    by (simp add: check_data_type_def ConfigurationItem_bool_def name_of_key)
qed

section \<open>Export followed by import\<close>

lemma add_to_json_json_of:
  "properly_constructed it \<Longrightarrow>
   add_to_json it (JObject members)
     = (Returns (), JObject (members @ [(config_key_to_string (key it), json_of it)]))"
  by (cases "type it"; cases "u it")
     (simp_all add: properly_constructed_def add_to_json_def AddMember_def json_of_def
       c_str_config_key_to_string v_bool_def v_integer_def v_double_def)

lemma set_from_json_json_of:
  assumes "properly_constructed it" "type it0 = type it"
    and "type it = CONFIGURATION_STRING_TYPE \<longrightarrow> CHR 0x00 \<notin> set (v_string it)"
  shows "set_from_json to_string (json_of it) it0
     = (Returns (), if type it = CONFIGURATION_STRING_TYPE
                    then it0\<lparr>v_string := v_string it\<rparr> else it0\<lparr>u := u it\<rparr>)"
  using assms
  by (cases "type it"; cases "u it")
     (simp_all add: properly_constructed_def set_from_json_def json_of_def json_defs
       v_bool_def v_integer_def v_double_def IsInt_sint [unfolded IsInt_def, simplified]
       c_str_no_NUL)

lemma set_from_json_same_cell:
  assumes "same_cell it0 it"
  shows "set_from_json to_string (json_of it) it0 = (Returns (), it)"
proof -
  from assms have pc: "properly_constructed it" and t: "type it0 = type it"
    and n: "type it = CONFIGURATION_STRING_TYPE \<longrightarrow> CHR 0x00 \<notin> set (v_string it)"
    by (auto simp: same_cell_def split: if_splits)
  have "(if type it = CONFIGURATION_STRING_TYPE
         then it0\<lparr>v_string := v_string it\<rparr> else it0\<lparr>u := u it\<rparr>) = it"
    using assms by (cases it; cases it0) (auto simp: same_cell_def split: if_splits)
  with set_from_json_json_of [OF pc t n] show ?thesis by simp
qed


lemma key_default: "items Configuration_new k = Some it0 \<Longrightarrow> key it0 = k"
  by (cases k)
    (auto simp: default_item ConfigurationItem_bool_def ConfigurationItem_double_def
      ConfigurationItem_cstr_def)

lemma default_same_cell: "items Configuration_new k = Some it0 \<Longrightarrow> same_cell it0 it0"
  by (cases k)
    (auto simp: default_item same_cell_def properly_constructed_def v_bool_def v_double_def
      ConfigurationItem_bool_def ConfigurationItem_double_def ConfigurationItem_cstr_def c_str_def)

lemma registry_inv_new: "registry_inv Configuration_new"
  unfolding registry_inv_def
proof
  fix k
  obtain it0 where "items Configuration_new k = Some it0" by (simp add: default_item)
  then show "\<exists>it0 it. items Configuration_new k = Some it0 \<and> items Configuration_new k = Some it \<and>
      same_cell it0 it"
    using default_same_cell by blast
qed

lemma same_cell_write:
  assumes "same_cell it0 it"
  shows "set_bool b it = (Returns (), it') \<Longrightarrow> same_cell it0 it'"
    and "set_double d it = (Returns (), it') \<Longrightarrow> same_cell it0 it'"
    and "set_string s it = (Returns (), it') \<Longrightarrow> CHR 0x00 \<notin> set s \<Longrightarrow> same_cell it0 it'"
  using assms
  by (auto simp: same_cell_def item_ops_defs properly_constructed_def
      split: if_splits ConfigurationDataTypes.splits)

lemma registry_inv_write_item:
  assumes inv: "registry_inv cfg"
    and w: "write_item k f cfg = (Returns (), cfg')"
    and f: "\<And>it0 it it'. same_cell it0 it \<Longrightarrow> f it = (Returns (), it') \<Longrightarrow> same_cell it0 it'"
  shows "registry_inv cfg'"
proof -
  from inv obtain it0 it where d: "items Configuration_new k = Some it0"
    and i: "items cfg k = Some it" and sc: "same_cell it0 it"
    unfolding registry_inv_def by blast
  obtain r it' where fit: "f it = (r, it')" by (cases "f it")
  with w i have r: "r = Returns ()" and cfg': "cfg' = cfg\<lparr>items := (items cfg)(k \<mapsto> it')\<rparr>"
    by (auto simp: write_item_def get_item_def)
  from f [OF sc] fit r have sc': "same_cell it0 it'" by simp
  show ?thesis
    unfolding registry_inv_def
  proof
    fix k'
    show "\<exists>it0 it. items Configuration_new k' = Some it0 \<and> items cfg' k' = Some it \<and> same_cell it0 it"
    proof (cases "k' = k")
      case True
      with d sc' cfg' show ?thesis by simp
    next
      case False
      with inv cfg' show ?thesis unfolding registry_inv_def by simp
    qed
  qed
qed

lemma registry_inv_apply_write:
  assumes "registry_inv cfg" "apply_write w cfg = (Returns (), cfg')" "NUL_free w"
  shows "registry_inv cfg'"
proof (cases w)
  case (Write_bool k val)
  with assms show ?thesis
    by (auto simp: set_config_bool_def intro: registry_inv_write_item same_cell_write(1))
next
  case (Write_double k val)
  with assms show ?thesis
    by (auto simp: set_config_double_def intro: registry_inv_write_item same_cell_write(2))
next
  case (Write_string k val)
  with assms have w: "write_item k (set_string val) cfg = (Returns (), cfg')"
    and n: "CHR 0x00 \<notin> set val"
    by (simp_all add: set_config_string_def)
  from assms(1) w show ?thesis
    by (rule registry_inv_write_item) (rule same_cell_write(3) [OF _ _ n])
qed

lemma registry_inv_apply_writes:
  "registry_inv cfg \<Longrightarrow> fst (apply_writes ws cfg) = Returns () \<Longrightarrow> list_all NUL_free ws \<Longrightarrow>
   registry_inv (snd (apply_writes ws cfg))"
proof (induction ws arbitrary: cfg)
  case Nil
  then show ?case by simp
next
  case (Cons w ws)
  obtain r cfg' where aw: "apply_write w cfg = (r, cfg')" by (cases "apply_write w cfg")
  with Cons.prems(2) have r: "r = Returns ()" by (cases r) auto
  from Cons.prems(1) aw r Cons.prems(3) have "registry_inv cfg'"
    by (auto intro: registry_inv_apply_write)
  with Cons.IH [of cfg'] Cons.prems aw r show ?case by simp
qed

lemma export_items_all:
  "\<forall>it \<in> set its. properly_constructed it \<Longrightarrow>
   export_items its (JObject members)
     = (Returns (), JObject (members @ map (\<lambda>it. (config_key_to_string (key it), json_of it)) its))"
  by (induction its arbitrary: members) (simp_all add: add_to_json_json_of)

lemma map_filter_all_Some:
  "\<forall>x \<in> set xs. f x \<noteq> None \<Longrightarrow> List.map_filter f xs = map (\<lambda>x. the (f x)) xs"
  by (induction xs) auto

lemma key_of_name: "key_of (config_key_to_string k) = Some k"
  by (cases k) (simp_all add: name_of_key key_of_def CONFIGURATION_KEYS_ENUM_def)

lemma import_members_all:
  assumes "distinct ks"
    and "\<forall>k \<in> set ks. \<exists>it0. items cfg0 k = Some it0 \<and>
            set_from_json to_string (v k) it0 = (Returns (), tgt k)"
  shows "import_members to_string (map (\<lambda>k. (config_key_to_string k, v k)) ks) cfg0
     = (Returns (), cfg0\<lparr>items := \<lambda>k. if k \<in> set ks then Some (tgt k) else items cfg0 k\<rparr>)"
  using assms
proof (induction ks arbitrary: cfg0)
  case Nil
  show ?case by simp
next
  case (Cons k ks)
  from Cons.prems obtain it0 where i: "items cfg0 k = Some it0"
    and s: "set_from_json to_string (v k) it0 = (Returns (), tgt k)" by auto
  let ?cfg1 = "cfg0\<lparr>items := (items cfg0)(k \<mapsto> tgt k)\<rparr>"
  have w: "write_item k (set_from_json to_string (v k)) cfg0 = (Returns (), ?cfg1)"
    by (simp add: write_item_def get_item_def i s)
  from Cons.prems have d: "distinct ks" "k \<notin> set ks" by simp_all
  have "\<forall>k' \<in> set ks. \<exists>it0. items ?cfg1 k' = Some it0 \<and>
            set_from_json to_string (v k') it0 = (Returns (), tgt k')"
    using Cons.prems(2) d(2) by auto
  from Cons.IH [OF d(1) this]
  have "import_members to_string (map (\<lambda>k. (config_key_to_string k, v k)) ks) ?cfg1
     = (Returns (), ?cfg1\<lparr>items := \<lambda>k'. if k' \<in> set ks then Some (tgt k') else items ?cfg1 k'\<rparr>)" .
  moreover have "?cfg1\<lparr>items := \<lambda>k'. if k' \<in> set ks then Some (tgt k') else items ?cfg1 k'\<rparr>
     = cfg0\<lparr>items := \<lambda>k'. if k' \<in> set (k # ks) then Some (tgt k') else items cfg0 k'\<rparr>"
    by (auto simp: fun_eq_iff)
  ultimately show ?case by (simp add: key_of_name w)
qed

lemma all_keys: "k \<in> set (map fst CONFIGURATION_KEYS_ENUM)"
  by (cases k) (simp_all add: CONFIGURATION_KEYS_ENUM_def)

lemma registry_round_trip:
  assumes inv: "registry_inv cfg"
  shows "\<exists>doc. get_config_as_json cfg = Returns doc \<and>
           set_config_json to_string doc Configuration_new = (Returns (), cfg)"
proof -
  let ?ks = "map fst CONFIGURATION_KEYS_ENUM"
  let ?it = "\<lambda>k. the (items cfg k)"
  let ?doc = "JObject (map (\<lambda>k. (config_key_to_string k, json_of (?it k))) ?ks)"
  from inv have cell: "\<And>k. \<exists>it0. items Configuration_new k = Some it0 \<and> items cfg k = Some (?it k) \<and>
      same_cell it0 (?it k)"
    unfolding registry_inv_def by (metis option.sel)
  have key: "key (?it k) = k" for k
    using cell [of k] key_default [of k] by (auto simp: same_cell_def)
  have pc: "properly_constructed (?it k)" for k
    using cell [of k] by (auto simp: same_cell_def)
  have "registry_entries cfg = map ?it ?ks"
    unfolding registry_entries_def using cell by (intro map_filter_all_Some) auto
  then have "export_items (registry_entries cfg) (JObject [])
      = (Returns (), JObject (map (\<lambda>it. (config_key_to_string (key it), json_of it)) (map ?it ?ks)))"
    using export_items_all [of "map ?it ?ks" "[]"] pc by auto
  also have "map (\<lambda>it. (config_key_to_string (key it), json_of it)) (map ?it ?ks)
      = map (\<lambda>k. (config_key_to_string k, json_of (?it k))) ?ks"
    by (simp add: key comp_def)
  finally have ex: "get_config_as_json cfg = Returns ?doc"
    by (simp add: get_config_as_json_def)
  have d: "distinct ?ks" by (simp add: CONFIGURATION_KEYS_ENUM_def)
  have "\<forall>k \<in> set ?ks. \<exists>it0. items Configuration_new k = Some it0 \<and>
      set_from_json to_string (json_of (?it k)) it0 = (Returns (), ?it k)"
    using cell set_from_json_same_cell by blast
  from import_members_all [OF d this]
  have "import_members to_string (map (\<lambda>k. (config_key_to_string k, json_of (?it k))) ?ks)
      Configuration_new
    = (Returns (), Configuration_new\<lparr>items := \<lambda>k. if k \<in> set ?ks then Some (?it k)
         else items Configuration_new k\<rparr>)" .
  moreover have "(\<lambda>k. if k \<in> set ?ks then Some (?it k) else items Configuration_new k) = items cfg"
  proof
    fix k
    from cell [of k] have "Some (?it k) = items cfg k" by auto
    with all_keys [of k]
    show "(if k \<in> set ?ks then Some (?it k) else items Configuration_new k) = items cfg k"
      by simp
  qed
  moreover have "Configuration_new\<lparr>items := items cfg\<rparr> = cfg"
    by (cases cfg) simp
  ultimately have "set_config_json to_string ?doc Configuration_new = (Returns (), cfg)"
    by (simp add: set_config_json_def)
  with ex show ?thesis by blast
qed


text \<open>
  C4, as amended. Round trip: after any sequence of typed writes on a fresh registry that
  all succeed and write no string with a NUL character in it, the export of the registry
  returns a document, and the import of that document into a second fresh registry
  returns and yields exactly the first registry, so every key has the value it had at
  export time. The same holds through the text of the document whenever the parser of
  the JSON library returns the document that its writer was given. At the level of one
  item: for a properly constructed item whose string, if it is a string item, has no NUL
  character, \<open>add_to_json\<close> appends a member named by the key's string, and
  \<open>set_from_json\<close> of that member's value on any item of the same type tag returns and
  leaves that item with the value of the exported one (and with its own key and tag).
\<close>

theorem round_trip:
  "(fst (apply_writes ws Configuration_new) = Returns () \<and> list_all NUL_free ws \<longrightarrow>
      (\<exists>doc. get_config_as_json (snd (apply_writes ws Configuration_new)) = Returns doc \<and>
         set_config_json to_string doc Configuration_new
           = (Returns (), snd (apply_writes ws Configuration_new)) \<and>
         get_config_as_json_string to_string (snd (apply_writes ws Configuration_new))
           = Returns (to_string doc) \<and>
         (parse (to_string doc) = Some doc \<longrightarrow>
            set_config_as_json_string parse to_string (to_string doc) Configuration_new
              = (Returns (), snd (apply_writes ws Configuration_new))))) \<and>
   (properly_constructed it \<and>
    (type it = CONFIGURATION_STRING_TYPE \<longrightarrow> CHR 0x00 \<notin> set (v_string it)) \<and>
    type it0 = type it \<longrightarrow>
      (\<exists>v. add_to_json it (JObject members)
              = (Returns (), JObject (members @ [(config_key_to_string (key it), v)])) \<and>
           set_from_json to_string v it0
              = (Returns (), if type it = CONFIGURATION_STRING_TYPE
                             then it0\<lparr>v_string := v_string it\<rparr> else it0\<lparr>u := u it\<rparr>)))"
proof (intro conjI impI)
  assume a: "fst (apply_writes ws Configuration_new) = Returns () \<and> list_all NUL_free ws"
  let ?cfg = "snd (apply_writes ws Configuration_new)"
  from a have "registry_inv ?cfg"
    by (intro registry_inv_apply_writes registry_inv_new) simp_all
  from registry_round_trip [OF this, of to_string] obtain doc where
    d: "get_config_as_json ?cfg = Returns doc"
       "set_config_json to_string doc Configuration_new = (Returns (), ?cfg)" by blast
  then have "get_config_as_json ?cfg = Returns doc \<and>
         set_config_json to_string doc Configuration_new = (Returns (), ?cfg) \<and>
         get_config_as_json_string to_string ?cfg = Returns (to_string doc) \<and>
         (parse (to_string doc) = Some doc \<longrightarrow>
            set_config_as_json_string parse to_string (to_string doc) Configuration_new
              = (Returns (), ?cfg))"
    by (simp add: get_config_as_json_string_def set_config_as_json_string_def)
  then show "\<exists>doc. get_config_as_json ?cfg = Returns doc \<and>
         set_config_json to_string doc Configuration_new = (Returns (), ?cfg) \<and>
         get_config_as_json_string to_string ?cfg = Returns (to_string doc) \<and>
         (parse (to_string doc) = Some doc \<longrightarrow>
            set_config_as_json_string parse to_string (to_string doc) Configuration_new
              = (Returns (), ?cfg))" ..
next
  assume b: "properly_constructed it \<and>
    (type it = CONFIGURATION_STRING_TYPE \<longrightarrow> CHR 0x00 \<notin> set (v_string it)) \<and>
    type it0 = type it"
  then have "add_to_json it (JObject members)
              = (Returns (), JObject (members @ [(config_key_to_string (key it), json_of it)])) \<and>
           set_from_json to_string (json_of it) it0
              = (Returns (), if type it = CONFIGURATION_STRING_TYPE
                             then it0\<lparr>v_string := v_string it\<rparr> else it0\<lparr>u := u it\<rparr>)"
    using add_to_json_json_of [of it members] set_from_json_json_of [of it it0 to_string] by blast
  then show "\<exists>v. add_to_json it (JObject members)
              = (Returns (), JObject (members @ [(config_key_to_string (key it), v)])) \<and>
           set_from_json to_string v it0
              = (Returns (), if type it = CONFIGURATION_STRING_TYPE
                             then it0\<lparr>v_string := v_string it\<rparr> else it0\<lparr>u := u it\<rparr>)" ..
qed

text \<open>
  C4 as stated fails. \<open>set_string\<close> accepts the three characters a, NUL, b; \<open>add_to_json\<close>
  builds the JSON string from \<^verbatim>\<open>c_str()\<close>, which ends at the NUL, and \<open>set_from_json\<close> of that
  value on the default item restores the string a, which is not the string that was
  exported.
\<close>

theorem NUL_truncates_string:
  "set_string [CHR ''a'', CHR 0x00, CHR ''b''] (ConfigurationItem_cstr ALTERNATIVE_TABLES_DIRECTORY [])
     = (Returns (), ConfigurationItem_string ALTERNATIVE_TABLES_DIRECTORY [CHR ''a'', CHR 0x00, CHR ''b'']) \<and>
   add_to_json (ConfigurationItem_string ALTERNATIVE_TABLES_DIRECTORY [CHR ''a'', CHR 0x00, CHR ''b''])
       (JObject [])
     = (Returns (), JObject [(''ALTERNATIVE_TABLES_DIRECTORY'', JString ''a'')]) \<and>
   set_from_json (\<lambda>v. []) (JString ''a'') (ConfigurationItem_cstr ALTERNATIVE_TABLES_DIRECTORY [])
     = (Returns (), ConfigurationItem_string ALTERNATIVE_TABLES_DIRECTORY ''a'') \<and>
   operator_string (ConfigurationItem_string ALTERNATIVE_TABLES_DIRECTORY ''a'') = Returns ''a'' \<and>
   operator_string (ConfigurationItem_string ALTERNATIVE_TABLES_DIRECTORY [CHR ''a'', CHR 0x00, CHR ''b''])
     = Returns [CHR ''a'', CHR 0x00, CHR ''b''] \<and>
   ''a'' \<noteq> [CHR ''a'', CHR 0x00, CHR ''b'']"
  by (simp add: item_ops_defs ConfigurationItem_cstr_def ConfigurationItem_string_def c_str_def
      add_to_json_def AddMember_def name_of_key set_from_json_def IsString_def GetString_def)


text \<open>
  Three writes on the fresh registry, its export, and the import of the export; and the
  string item of \<open>ALTERNATIVE_TABLES_DIRECTORY\<close> holding \<open>/tmp\<close>.
\<close>

theorem round_trip_witness:
  "fst (apply_writes
         [Write_bool NORMALIZE_GAS_CONSTANTS False,
          Write_string ALTERNATIVE_TABLES_DIRECTORY ''/tmp'',
          Write_double MAXIMUM_TABLE_DIRECTORY_SIZE_IN_GB 2] Configuration_new) = Returns () \<and>
   list_all NUL_free
         [Write_bool NORMALIZE_GAS_CONSTANTS False,
          Write_string ALTERNATIVE_TABLES_DIRECTORY ''/tmp'',
          Write_double MAXIMUM_TABLE_DIRECTORY_SIZE_IN_GB 2] \<and>
   get_config_as_json (snd (apply_writes
         [Write_bool NORMALIZE_GAS_CONSTANTS False,
          Write_string ALTERNATIVE_TABLES_DIRECTORY ''/tmp'',
          Write_double MAXIMUM_TABLE_DIRECTORY_SIZE_IN_GB 2] Configuration_new))
     = Returns (JObject
         [(''NORMALIZE_GAS_CONSTANTS'', JBool False),
          (''CRITICAL_WITHIN_1UK'', JBool True),
          (''CRITICAL_SPLINES_ENABLED'', JBool True),
          (''SAVE_RAW_TABLES'', JBool False),
          (''ALTERNATIVE_TABLES_DIRECTORY'', JString ''/tmp''),
          (''ALTERNATIVE_REFPROP_PATH'', JString []),
          (''ALTERNATIVE_REFPROP_HMX_BNC_PATH'', JString []),
          (''REFPROP_DONT_ESTIMATE_INTERACTION_PARAMETERS'', JBool False),
          (''MAXIMUM_TABLE_DIRECTORY_SIZE_IN_GB'', JDouble 2),
          (''DONT_CHECK_PROPERTY_LIMITS'', JBool False),
          (''HENRYS_LAW_TO_GENERATE_VLE_GUESSES'', JBool False),
          (''PHASE_ENVELOPE_STARTING_PRESSURE_PA'', JDouble 100)]) \<and>
   set_config_json (\<lambda>v. ''{}'')
       (JObject
         [(''NORMALIZE_GAS_CONSTANTS'', JBool False),
          (''CRITICAL_WITHIN_1UK'', JBool True),
          (''CRITICAL_SPLINES_ENABLED'', JBool True),
          (''SAVE_RAW_TABLES'', JBool False),
          (''ALTERNATIVE_TABLES_DIRECTORY'', JString ''/tmp''),
          (''ALTERNATIVE_REFPROP_PATH'', JString []),
          (''ALTERNATIVE_REFPROP_HMX_BNC_PATH'', JString []),
          (''REFPROP_DONT_ESTIMATE_INTERACTION_PARAMETERS'', JBool False),
          (''MAXIMUM_TABLE_DIRECTORY_SIZE_IN_GB'', JDouble 2),
          (''DONT_CHECK_PROPERTY_LIMITS'', JBool False),
          (''HENRYS_LAW_TO_GENERATE_VLE_GUESSES'', JBool False),
          (''PHASE_ENVELOPE_STARTING_PRESSURE_PA'', JDouble 100)])
       Configuration_new
     = (Returns (), snd (apply_writes
         [Write_bool NORMALIZE_GAS_CONSTANTS False,
          Write_string ALTERNATIVE_TABLES_DIRECTORY ''/tmp'',
          Write_double MAXIMUM_TABLE_DIRECTORY_SIZE_IN_GB 2] Configuration_new)) \<and>
   set_config_as_json_string (\<lambda>s. if s = ''{}'' then Some
       (JObject
         [(''NORMALIZE_GAS_CONSTANTS'', JBool False),
          (''CRITICAL_WITHIN_1UK'', JBool True),
          (''CRITICAL_SPLINES_ENABLED'', JBool True),
          (''SAVE_RAW_TABLES'', JBool False),
          (''ALTERNATIVE_TABLES_DIRECTORY'', JString ''/tmp''),
          (''ALTERNATIVE_REFPROP_PATH'', JString []),
          (''ALTERNATIVE_REFPROP_HMX_BNC_PATH'', JString []),
          (''REFPROP_DONT_ESTIMATE_INTERACTION_PARAMETERS'', JBool False),
          (''MAXIMUM_TABLE_DIRECTORY_SIZE_IN_GB'', JDouble 2),
          (''DONT_CHECK_PROPERTY_LIMITS'', JBool False),
          (''HENRYS_LAW_TO_GENERATE_VLE_GUESSES'', JBool False),
          (''PHASE_ENVELOPE_STARTING_PRESSURE_PA'', JDouble 100)]) else None)
       (\<lambda>v. ''{}'') ''{}'' Configuration_new
     = (Returns (), snd (apply_writes
         [Write_bool NORMALIZE_GAS_CONSTANTS False,
          Write_string ALTERNATIVE_TABLES_DIRECTORY ''/tmp'',
          Write_double MAXIMUM_TABLE_DIRECTORY_SIZE_IN_GB 2] Configuration_new)) \<and>
   properly_constructed (ConfigurationItem_string ALTERNATIVE_TABLES_DIRECTORY ''/tmp'') \<and>
   CHR 0x00 \<notin> set (v_string (ConfigurationItem_string ALTERNATIVE_TABLES_DIRECTORY ''/tmp'')) \<and>
   add_to_json (ConfigurationItem_string ALTERNATIVE_TABLES_DIRECTORY ''/tmp'') (JObject [])
     = (Returns (), JObject [(''ALTERNATIVE_TABLES_DIRECTORY'', JString ''/tmp'')]) \<and>
   set_from_json (\<lambda>v. ''{}'') (JString ''/tmp'') (ConfigurationItem_cstr ALTERNATIVE_TABLES_DIRECTORY [])
     = (Returns (), ConfigurationItem_string ALTERNATIVE_TABLES_DIRECTORY ''/tmp'')"
proof -
  let ?ws = "[Write_bool NORMALIZE_GAS_CONSTANTS False,
          Write_string ALTERNATIVE_TABLES_DIRECTORY ''/tmp'',
          Write_double MAXIMUM_TABLE_DIRECTORY_SIZE_IN_GB 2]"
  let ?D = "JObject
         [(''NORMALIZE_GAS_CONSTANTS'', JBool False),
          (''CRITICAL_WITHIN_1UK'', JBool True),
          (''CRITICAL_SPLINES_ENABLED'', JBool True),
          (''SAVE_RAW_TABLES'', JBool False),
          (''ALTERNATIVE_TABLES_DIRECTORY'', JString ''/tmp''),
          (''ALTERNATIVE_REFPROP_PATH'', JString []),
          (''ALTERNATIVE_REFPROP_HMX_BNC_PATH'', JString []),
          (''REFPROP_DONT_ESTIMATE_INTERACTION_PARAMETERS'', JBool False),
          (''MAXIMUM_TABLE_DIRECTORY_SIZE_IN_GB'', JDouble 2),
          (''DONT_CHECK_PROPERTY_LIMITS'', JBool False),
          (''HENRYS_LAW_TO_GENERATE_VLE_GUESSES'', JBool False),
          (''PHASE_ENVELOPE_STARTING_PRESSURE_PA'', JDouble 100)]"
  let ?ts = "\<lambda>v::json. ''{}''"
  let ?it = "ConfigurationItem_string ALTERNATIVE_TABLES_DIRECTORY ''/tmp''"
  let ?dflt = "ConfigurationItem_cstr ALTERNATIVE_TABLES_DIRECTORY []"
  let ?cfg = "Configuration_new\<lparr>items := (items Configuration_new)
          (NORMALIZE_GAS_CONSTANTS \<mapsto> ConfigurationItem_bool NORMALIZE_GAS_CONSTANTS False,
           ALTERNATIVE_TABLES_DIRECTORY \<mapsto> ?it,
           MAXIMUM_TABLE_DIRECTORY_SIZE_IN_GB \<mapsto>
             ConfigurationItem_double MAXIMUM_TABLE_DIRECTORY_SIZE_IN_GB 2)\<rparr>"
  have w: "apply_writes ?ws Configuration_new = (Returns (), ?cfg)"
    by (simp add: set_config_bool_def set_config_double_def set_config_string_def write_item_def
        get_item_def default_item item_ops_defs ConfigurationItem_bool_def
        ConfigurationItem_double_def ConfigurationItem_cstr_def ConfigurationItem_string_def c_str_def)
  then have h1: "fst (apply_writes ?ws Configuration_new) = Returns ()" by simp
  have h2: "list_all NUL_free ?ws" by simp
  have e: "registry_entries ?cfg
     = [ConfigurationItem_bool NORMALIZE_GAS_CONSTANTS False,
        ConfigurationItem_bool CRITICAL_WITHIN_1UK True,
        ConfigurationItem_bool CRITICAL_SPLINES_ENABLED True,
        ConfigurationItem_bool SAVE_RAW_TABLES False,
        ?it,
        ConfigurationItem_cstr ALTERNATIVE_REFPROP_PATH [],
        ConfigurationItem_cstr ALTERNATIVE_REFPROP_HMX_BNC_PATH [],
        ConfigurationItem_bool REFPROP_DONT_ESTIMATE_INTERACTION_PARAMETERS False,
        ConfigurationItem_double MAXIMUM_TABLE_DIRECTORY_SIZE_IN_GB 2,
        ConfigurationItem_bool DONT_CHECK_PROPERTY_LIMITS False,
        ConfigurationItem_bool HENRYS_LAW_TO_GENERATE_VLE_GUESSES False,
        ConfigurationItem_double PHASE_ENVELOPE_STARTING_PRESSURE_PA 100]"
    by (simp add: registry_entries_def CONFIGURATION_KEYS_ENUM_def default_item)
  have "get_config_as_json ?cfg = Returns ?D"
    unfolding get_config_as_json_def e
    by (simp add: add_to_json_def AddMember_def name_of_key c_str_def v_bool_def v_double_def
        ConfigurationItem_bool_def ConfigurationItem_double_def ConfigurationItem_cstr_def
        ConfigurationItem_string_def)
  then have g: "get_config_as_json (snd (apply_writes ?ws Configuration_new)) = Returns ?D"
    by (simp only: w snd_conv)
  have pc: "properly_constructed ?it" by (rule constructors_properly_constructed)
  have nn: "CHR 0x00 \<notin> set (v_string ?it)" by (simp add: ConfigurationItem_string_def)
  have ty: "type ?it = CONFIGURATION_STRING_TYPE" "type ?dflt = type ?it" "key ?it = ALTERNATIVE_TABLES_DIRECTORY"
    by (simp_all add: ConfigurationItem_string_def ConfigurationItem_cstr_def)
  let ?parse = "\<lambda>s. if s = ''{}'' then Some ?D else None"
  have p: "?parse (?ts ?D) = Some ?D" by simp
  note rt = round_trip [of ?ws ?ts ?parse ?it ?dflt "[]"]
  from rt h1 h2 g have i: "set_config_json ?ts ?D Configuration_new
      = (Returns (), snd (apply_writes ?ws Configuration_new))"
    by auto
  from rt h1 h2 g p have t: "set_config_as_json_string ?parse ?ts ''{}'' Configuration_new
      = (Returns (), snd (apply_writes ?ws Configuration_new))"
    by auto
  from rt pc nn ty obtain v where
    v: "add_to_json ?it (JObject [])
          = (Returns (), JObject ([] @ [(config_key_to_string (key ?it), v)]))"
       "set_from_json ?ts v ?dflt = (Returns (), ?dflt\<lparr>v_string := v_string ?it\<rparr>)"
    by auto
  have a: "add_to_json ?it (JObject []) = (Returns (), JObject [(''ALTERNATIVE_TABLES_DIRECTORY'', JString ''/tmp'')])"
    by (simp add: add_to_json_def AddMember_def name_of_key c_str_def ConfigurationItem_string_def)
  with v(1) have "v = JString ''/tmp''" by simp
  with v(2) have s: "set_from_json ?ts (JString ''/tmp'') ?dflt = (Returns (), ?it)"
    by (simp add: ConfigurationItem_string_def ConfigurationItem_cstr_def)
  from h1 h2 g i t pc nn a s show ?thesis by blast
qed

end
